theory Spec2Isabelle
  imports Main "HOL-Library.Word" "HOL-Library.Char_ord" "HOL-Library.List_Lexorder"
begin

unbundle bit_operations_syntax

section \<open>Strings and integers\<close>

text \<open>
  A Go string is a sequence of bytes; \<^typ>\<open>char\<close> is an 8-bit value, so \<^typ>\<open>string\<close>
  models both \<^verbatim>\<open>string\<close> and \<^verbatim>\<open>[]byte\<close>, and the conversion between them is
  the identity.
\<close>

definition nl :: char where
  "nl = CHR 0x0A"

definition isDigit :: "char \<Rightarrow> bool" where
  "isDigit c = (CHR ''0'' \<le> c \<and> c \<le> CHR ''9'')"

definition digitVal :: "char \<Rightarrow> nat" where
  "digitVal c = of_char c - 48"

definition digitChar :: "nat \<Rightarrow> char" where
  "digitChar d = ''0123456789'' ! d"

text \<open>The decimal digits of a natural number, most significant first (\<^verbatim>\<open>%d\<close>).\<close>

fun natDigits :: "nat \<Rightarrow> string" where
  "natDigits n = (if n < 10 then [digitChar n] else natDigits (n div 10) @ [digitChar (n mod 10)])"

declare natDigits.simps [simp del]

text \<open>\<^verbatim>\<open>fmt.Sprintf("%d", n)\<close> for an integer \<open>n\<close>.\<close>

definition FormatInt :: "int \<Rightarrow> string" where
  "FormatInt n = (if n < 0 then CHR ''-'' # natDigits (nat (- n)) else natDigits (nat n))"

definition digitsVal :: "string \<Rightarrow> nat" where
  "digitsVal ds = foldl (\<lambda>acc c. 10 * acc + digitVal c) 0 ds"

text \<open>
  \<^verbatim>\<open>strconv.ParseInt(s, 10, 64)\<close>: an optional sign, then one or more decimal digits;
  a value outside the signed 64-bit range is an error.
\<close>

definition ParseInt :: "string \<Rightarrow> int option" where
  "ParseInt s =
     (let neg = (s \<noteq> [] \<and> hd s = CHR ''-'');
          ds = (if s \<noteq> [] \<and> (hd s = CHR ''-'' \<or> hd s = CHR ''+'') then tl s else s)
      in if ds = [] \<or> \<not> list_all isDigit ds then None
         else let v = (if neg then - int (digitsVal ds) else int (digitsVal ds))
              in if - (2 ^ 63) \<le> v \<and> v < 2 ^ 63 then Some v else None)"

text \<open>\<^verbatim>\<open>strings.Contains\<close>.\<close>

fun Contains :: "string \<Rightarrow> string \<Rightarrow> bool" where
  "Contains [] sub = (sub = [])"
| "Contains (c # cs) sub = (take (length sub) (c # cs) = sub \<or> Contains cs sub)"

section \<open>Machines, events and the server state\<close>

text \<open>\<^verbatim>\<open>db.System\<close>: one row of table \<^verbatim>\<open>systems\<close>. A nil pointer is \<open>None\<close>.\<close>

record System =
  ID :: int
  MAC :: string
  Hostname :: string
  ImageID :: "int option"
  ProfileID :: "int option"
  Vars :: string
  IPAddr :: string
  LastSeenAt :: string
  State :: string
  StateChangedAt :: string
  CreatedAt :: string
  UpdatedAt :: string

text \<open>\<^verbatim>\<open>webhook.Event\<close> as built by \<^verbatim>\<open>fireSystemEvent\<close>: the type and the five data fields.\<close>

record Event =
  Type :: string
  data_id :: int
  data_mac :: string
  data_hostname :: string
  data_ip_addr :: string
  data_state :: string

text \<open>\<^verbatim>\<open>db.Image\<close> and \<^verbatim>\<open>db.Profile\<close>, with the columns the boot path reads.\<close>

record Image =
  Image_ID :: int
  Image_BootType :: string
  Image_Cmdline :: string
  Image_IPXEScript :: string

record Profile =
  Profile_ID :: int
  Profile_KernelParams :: string
  Profile_DefaultVars :: string
  Profile_OverlayFile :: string

text \<open>
  The server together with its database. \<open>systems\<close> holds the rows of the table in
  rowid order and \<open>systems_seq\<close> the last AUTOINCREMENT id handed out; \<open>fired\<close> is the
  sequence of events passed to \<^verbatim>\<open>Webhook.Fire\<close>, oldest first. Database errors other
  than "no rows" are not modelled: every statement succeeds.
\<close>

record Server =
  systems :: "System list"
  systems_seq :: int
  images :: "Image list"
  profiles :: "Profile list"
  settings :: "(string \<times> string) list"
  signingKey :: string
  ServerURL :: string
  fired :: "Event list"

text \<open>
  What a handler wrote: the status (200 unless \<^verbatim>\<open>WriteHeader\<close> was called), the
  content type and the body. The output of an HTML template is kept symbolic: the
  template's name and the machine it was executed on.
\<close>

datatype Body = Text string | Template string System

record Response =
  status :: nat
  contentType :: string
  body :: Body

text \<open>\<^verbatim>\<open>http.Error\<close>: plain text, the message and a newline.\<close>

definition http_Error :: "string \<Rightarrow> nat \<Rightarrow> Response" where
  "http_Error msg code = \<lparr>status = code, contentType = ''text/plain; charset=utf-8'', body = Text (msg @ [nl])\<rparr>"

definition GetSystemByID :: "Server \<Rightarrow> int \<Rightarrow> System option" where
  "GetSystemByID s i = find (\<lambda>r. ID r = i) (systems s)"

text \<open>\<^verbatim>\<open>UPDATE systems SET state = ?, state_changed_at = now, updated_at = now WHERE id = ?\<close>\<close>

definition UpdateSystemState :: "string \<Rightarrow> Server \<Rightarrow> int \<Rightarrow> string \<Rightarrow> Server" where
  "UpdateSystemState now s i st =
     s\<lparr>systems := map (\<lambda>r. if ID r = i then r\<lparr>State := st, StateChangedAt := now, UpdatedAt := now\<rparr> else r)
                       (systems s)\<rparr>"

definition fireSystemEvent :: "Server \<Rightarrow> System \<Rightarrow> string \<Rightarrow> Server" where
  "fireSystemEvent s sys st =
     s\<lparr>fired := fired s @ [\<lparr>Type = ''system.'' @ st, data_id = ID sys, data_mac = MAC sys,
                            data_hostname = Hostname sys, data_ip_addr = IPAddr sys, data_state = st\<rparr>]\<rparr>"

definition renderSystemRow :: "Server \<Rightarrow> int \<Rightarrow> Response" where
  "renderSystemRow s i =
     (case GetSystemByID s i of
        None \<Rightarrow> http_Error ''System not found'' 404
      | Some sys \<Rightarrow> \<lparr>status = 200, contentType = ''text/html; charset=utf-8'', body = Template ''system_row'' sys\<rparr>)"

section \<open>Operator state actions\<close>

text \<open>
  The \<^verbatim>\<open>switch action\<close> of \<^verbatim>\<open>handleSystemStateAction\<close>: the new state, or the
  error response of the guard that failed.
\<close>

definition stateAction :: "string \<Rightarrow> System \<Rightarrow> Response + string" where
  "stateAction action sys =
     (if action = ''queue'' then
        (if State sys \<noteq> ''discovered'' \<and> State sys \<noteq> ''ready'' \<and> State sys \<noteq> ''failed''
         then Inl (http_Error (''Cannot queue from state '' @ State sys) 400)
         else if ImageID sys = None \<or> Hostname sys = ''''
         then Inl (http_Error ''Image and hostname must be set before queuing'' 400)
         else Inr ''queued'')
      else if action = ''cancel'' then
        (if State sys \<noteq> ''queued''
         then Inl (http_Error ''Can only cancel from queued state'' 400)
         else if Hostname sys \<noteq> '''' then Inr ''ready'' else Inr ''discovered'')
      else if action = ''retry'' then
        (if State sys \<noteq> ''failed''
         then Inl (http_Error ''Can only retry from failed state'' 400)
         else Inr ''queued'')
      else if action = ''mark_failed'' then
        (if State sys \<noteq> ''provisioning''
         then Inl (http_Error ''Can only mark failed from provisioning state'' 400)
         else Inr ''failed'')
      else if action = ''reimage'' then
        (if State sys \<noteq> ''ready''
         then Inl (http_Error ''Can only reimage from ready state'' 400)
         else Inr ''queued'')
      else Inl (http_Error ''Unknown action'' 400))"

text \<open>
  \<^verbatim>\<open>handleSystemStateAction\<close>: \<open>idstr\<close> is the path value \<^verbatim>\<open>id\<close>, \<open>action\<close> the
  form value, \<open>now\<close> the database clock.
\<close>

definition handleSystemStateAction :: "string \<Rightarrow> string \<Rightarrow> string \<Rightarrow> Server \<Rightarrow> Response \<times> Server" where
  "handleSystemStateAction now idstr action s =
     (case ParseInt idstr of
        None \<Rightarrow> (http_Error ''Invalid ID'' 400, s)
      | Some i \<Rightarrow>
          (case GetSystemByID s i of
             None \<Rightarrow> (http_Error ''System not found'' 404, s)
           | Some sys \<Rightarrow>
               (case stateAction action sys of
                  Inl resp \<Rightarrow> (resp, s)
                | Inr newState \<Rightarrow>
                    (let s1 = UpdateSystemState now s i newState;
                         s2 = fireSystemEvent s1 sys newState
                     in (renderSystemRow s2 i, s2)))))"

text \<open>
  The transition table as the specification words it: the target state of an operator
  action on a machine, or \<open>None\<close> where the guard does not hold.
\<close>

definition spec_transition :: "string \<Rightarrow> System \<Rightarrow> string option" where
  "spec_transition action sys =
     (if action = ''queue'' \<and> State sys \<in> {''discovered'', ''ready'', ''failed''}
           \<and> ImageID sys \<noteq> None \<and> Hostname sys \<noteq> '''' then Some ''queued''
      else if action = ''cancel'' \<and> State sys = ''queued''
        then Some (if Hostname sys \<noteq> '''' then ''ready'' else ''discovered'')
      else if action = ''retry'' \<and> State sys = ''failed'' then Some ''queued''
      else if action = ''mark_failed'' \<and> State sys = ''provisioning'' then Some ''failed''
      else if action = ''reimage'' \<and> State sys = ''ready'' then Some ''queued''
      else None)"

text \<open>The text a response carries (\<open>[]\<close> for a rendered template).\<close>

definition bodyText :: "Response \<Rightarrow> string" where
  "bodyText r = (case body r of Text t \<Rightarrow> t | Template _ _ \<Rightarrow> [])"

section \<open>MAC normalisation\<close>

text \<open>
  \<^verbatim>\<open>unicode.IsSpace\<close> on the UTF-8 encoding: the number of bytes of the white-space
  rune a string starts with, or 0. The white-space runes are the six ASCII ones, U+0085,
  U+00A0, U+1680, U+2000 to U+200A, U+2028, U+2029, U+202F, U+205F and U+3000.
\<close>

definition asciiSpace :: "char \<Rightarrow> bool" where
  "asciiSpace c = (c = CHR 0x09 \<or> c = CHR 0x0A \<or> c = CHR 0x0B \<or> c = CHR 0x0C \<or> c = CHR 0x0D \<or> c = CHR 0x20)"

definition isSpace3 :: "char \<Rightarrow> char \<Rightarrow> char \<Rightarrow> bool" where
  "isSpace3 a b c =
     ((a = CHR 0xE1 \<and> b = CHR 0x9A \<and> c = CHR 0x80)
    \<or> (a = CHR 0xE2 \<and> b = CHR 0x80 \<and>
          ((CHR 0x80 \<le> c \<and> c \<le> CHR 0x8A) \<or> c = CHR 0xA8 \<or> c = CHR 0xA9 \<or> c = CHR 0xAF))
    \<or> (a = CHR 0xE2 \<and> b = CHR 0x81 \<and> c = CHR 0x9F)
    \<or> (a = CHR 0xE3 \<and> b = CHR 0x80 \<and> c = CHR 0x80))"

definition isSpace2 :: "char \<Rightarrow> char \<Rightarrow> bool" where
  "isSpace2 a b = (a = CHR 0xC2 \<and> (b = CHR 0x85 \<or> b = CHR 0xA0))"

fun leadingSpace :: "string \<Rightarrow> nat" where
  "leadingSpace (a # b # c # r) =
     (if asciiSpace a then 1 else if isSpace2 a b then 2 else if isSpace3 a b c then 3 else 0)"
| "leadingSpace [a, b] = (if asciiSpace a then 1 else if isSpace2 a b then 2 else 0)"
| "leadingSpace [a] = (if asciiSpace a then 1 else 0)"
| "leadingSpace [] = 0"

text \<open>The same for the rune a string ends with; the argument is the string reversed.\<close>

fun trailingSpace :: "string \<Rightarrow> nat" where
  "trailingSpace (c # b # a # r) =
     (if asciiSpace c then 1 else if isSpace2 b c then 2 else if isSpace3 a b c then 3 else 0)"
| "trailingSpace [c, b] = (if asciiSpace c then 1 else if isSpace2 b c then 2 else 0)"
| "trailingSpace [c] = (if asciiSpace c then 1 else 0)"
| "trailingSpace [] = 0"

text \<open>
  Dropping white-space runes while there are any; the first argument bounds the number
  of steps and is the length of the string where these are used.
\<close>

fun dropSpaces :: "(string \<Rightarrow> nat) \<Rightarrow> nat \<Rightarrow> string \<Rightarrow> string" where
  "dropSpaces f 0 s = s"
| "dropSpaces f (Suc n) s = (if f s = 0 then s else dropSpaces f n (drop (f s) s))"

text \<open>\<^verbatim>\<open>strings.TrimSpace\<close>: leading, then trailing white space removed.\<close>

definition TrimSpace :: "string \<Rightarrow> string" where
  "TrimSpace s =
     (let l = dropSpaces leadingSpace (length s) s
      in rev (dropSpaces trailingSpace (length l) (rev l)))"

text \<open>
  \<^verbatim>\<open>strings.ToLower\<close> on ASCII letters. On a string with a byte from 0x80 up Go
  decodes UTF-8 and folds every rune; no rune outside ASCII folds to a hex digit or a
  separator, so the result keeps a character that \<^verbatim>\<open>normalizeMAC\<close> rejects, as the
  unchanged byte does here.
\<close>

definition lowerChar :: "char \<Rightarrow> char" where
  "lowerChar c =
     (case map_of (zip ''ABCDEFGHIJKLMNOPQRSTUVWXYZ'' ''abcdefghijklmnopqrstuvwxyz'') c of
        Some l \<Rightarrow> l
      | None \<Rightarrow> c)"

definition ToLower :: "string \<Rightarrow> string" where
  "ToLower s = map lowerChar s"

definition isMacSep :: "char \<Rightarrow> bool" where
  "isMacSep c = (c = CHR '':'' \<or> c = CHR ''-'' \<or> c = CHR ''.'')"

definition isLowerHex :: "char \<Rightarrow> bool" where
  "isLowerHex c = ((CHR ''0'' \<le> c \<and> c \<le> CHR ''9'') \<or> (CHR ''a'' \<le> c \<and> c \<le> CHR ''f''))"

text \<open>\<^verbatim>\<open>normalizeMAC\<close>; \<open>None\<close> is the error "invalid MAC address".\<close>

definition normalizeMAC :: "string \<Rightarrow> string option" where
  "normalizeMAC mac =
     (let hex = filter (\<lambda>c. \<not> isMacSep c) (ToLower (TrimSpace mac))
      in if length hex \<noteq> 12 then None
         else if \<not> list_all isLowerHex hex then None
         else Some (take 2 hex @ '':'' @ take 2 (drop 2 hex) @ '':'' @ take 2 (drop 4 hex) @ '':''
                    @ take 2 (drop 6 hex) @ '':'' @ take 2 (drop 8 hex) @ '':'' @ take 2 (drop 10 hex)))"

section \<open>Database operations on machines\<close>

datatype error = InvalidMAC | SystemNotFound string | TransitionFailed string string

definition GetSystemByMAC :: "Server \<Rightarrow> string \<Rightarrow> error + System option" where
  "GetSystemByMAC s mac =
     (case normalizeMAC mac of
        None \<Rightarrow> Inl InvalidMAC
      | Some m \<Rightarrow> Inr (find (\<lambda>r. MAC r = m) (systems s)))"

text \<open>
  \<^verbatim>\<open>TransitionSystemStateByMAC\<close>: the conditional update, and the follow-up read when
  it affected no row. The database changes only on the last branch.
\<close>

definition TransitionSystemStateByMAC :: "string \<Rightarrow> Server \<Rightarrow> string \<Rightarrow> string \<Rightarrow> string \<Rightarrow> error + Server" where
  "TransitionSystemStateByMAC now s mac expectedState newState =
     (case normalizeMAC mac of
        None \<Rightarrow> Inl InvalidMAC
      | Some m \<Rightarrow>
          (if filter (\<lambda>r. MAC r = m \<and> State r = expectedState) (systems s) = [] then
             (case find (\<lambda>r. MAC r = m) (systems s) of
                None \<Rightarrow> Inl (SystemNotFound m)
              | Some r \<Rightarrow> if State r = newState then Inr s
                          else Inl (TransitionFailed expectedState (State r)))
           else Inr (s\<lparr>systems :=
                  map (\<lambda>r. if MAC r = m \<and> State r = expectedState
                            then r\<lparr>State := newState, StateChangedAt := now, UpdatedAt := now\<rparr> else r)
                      (systems s)\<rparr>)))"

definition TouchSystem :: "string \<Rightarrow> Server \<Rightarrow> string \<Rightarrow> string \<Rightarrow> error + Server" where
  "TouchSystem now s mac ipAddr =
     (case normalizeMAC mac of
        None \<Rightarrow> Inl InvalidMAC
      | Some m \<Rightarrow> Inr (s\<lparr>systems :=
            map (\<lambda>r. if MAC r = m then r\<lparr>IPAddr := ipAddr, LastSeenAt := now, UpdatedAt := now\<rparr> else r)
                (systems s)\<rparr>))"

text \<open>
  The row \<^verbatim>\<open>INSERT OR IGNORE INTO systems (mac, ip_addr, last_seen_at)\<close> creates: the
  other columns take the defaults of the schema (empty \<^verbatim>\<open>hostname\<close>, \<^verbatim>\<open>image_id\<close>
  and \<^verbatim>\<open>profile_id\<close> NULL, \<^verbatim>\<open>vars\<close> an empty JSON object, \<^verbatim>\<open>state\<close> discovered,
  \<^verbatim>\<open>state_changed_at\<close> NULL, read back as the empty string).
\<close>

definition newSystemRow :: "string \<Rightarrow> int \<Rightarrow> string \<Rightarrow> string \<Rightarrow> System" where
  "newSystemRow now i m ipAddr =
     \<lparr>ID = i, MAC = m, Hostname = [], ImageID = None, ProfileID = None, Vars = ''{}'',
      IPAddr = ipAddr, LastSeenAt = now, State = ''discovered'', StateChangedAt = [],
      CreatedAt = now, UpdatedAt = now\<rparr>"

text \<open>
  The insert-or-ignore: column \<^verbatim>\<open>mac\<close> is UNIQUE, so the row is added only when no row
  has this MAC. The result says whether a row was affected. The id is taken from the
  AUTOINCREMENT counter before the constraint is checked, so an ignored insert uses up
  an id as well.
\<close>

definition insertOrIgnore :: "string \<Rightarrow> Server \<Rightarrow> string \<Rightarrow> string \<Rightarrow> bool \<times> Server" where
  "insertOrIgnore now s m ipAddr =
     (if find (\<lambda>r. MAC r = m) (systems s) \<noteq> None then (False, s\<lparr>systems_seq := systems_seq s + 1\<rparr>)
      else (True, s\<lparr>systems := systems s @ [newSystemRow now (systems_seq s + 1) m ipAddr],
                     systems_seq := systems_seq s + 1\<rparr>))"

text \<open>
  \<^verbatim>\<open>AutoRegister\<close> returns the machine, whether it is new, and the error if any; the
  last component is the database afterwards. The error of \<^verbatim>\<open>TouchSystem\<close> is dropped,
  as in the source.
\<close>

definition AutoRegister :: "string \<Rightarrow> Server \<Rightarrow> string \<Rightarrow> string \<Rightarrow> (System option \<times> bool \<times> error option) \<times> Server" where
  "AutoRegister now s mac ipAddr =
     (case normalizeMAC mac of
        None \<Rightarrow> ((None, False, Some InvalidMAC), s)
      | Some m \<Rightarrow>
          (let (isNew, s1) = insertOrIgnore now s m ipAddr;
               s2 = (if \<not> isNew then (case TouchSystem now s1 m ipAddr of Inl e \<Rightarrow> s1 | Inr s' \<Rightarrow> s') else s1)
           in (case GetSystemByMAC s2 m of
                 Inl e \<Rightarrow> ((None, isNew, Some e), s2)
               | Inr sys \<Rightarrow> ((sys, isNew, None), s2))))"

section \<open>The boot script handler\<close>

definition ExitScript :: string where
  "ExitScript = ''#!ipxe'' @ [nl] @ ''exit'' @ [nl]"

text \<open>
  The fields of a request the handlers read: the path, the query parameters \<^verbatim>\<open>tok\<close>
  and \<^verbatim>\<open>mac\<close>, the path value \<^verbatim>\<open>mac\<close>, the result of \<^verbatim>\<open>clientAddr\<close> and the host.
\<close>

record Request =
  URL_Path :: string
  query_tok :: string
  query_mac :: string
  path_mac :: string
  clientAddr :: string
  Host :: string

text \<open>
  The instant a request is served: what \<^verbatim>\<open>datetime('now')\<close> gives the database and
  what \<^verbatim>\<open>time.Now().Unix()\<close> gives the server.
\<close>

record Clock =
  datetime :: string
  unix :: int

definition plainText :: "string \<Rightarrow> Response" where
  "plainText b = \<lparr>status = 200, contentType = ''text/plain'', body = Text b\<rparr>"

definition GetImage :: "Server \<Rightarrow> int \<Rightarrow> Image option" where
  "GetImage s i = find (\<lambda>g. Image_ID g = i) (images s)"

text \<open>
  \<^verbatim>\<open>handleBootScript\<close>. The script of a queued machine is built by Go's text templates
  from the image, the profile and signed URLs; that part is the parameter \<open>render\<close>,
  which yields the script (already wrapped with the confirmation menu when that is
  configured) or \<open>None\<close> when rendering fails.
\<close>

definition handleBootScript ::
    "(Clock \<Rightarrow> Server \<Rightarrow> Request \<Rightarrow> System \<Rightarrow> Image \<Rightarrow> string option)
      \<Rightarrow> Clock \<Rightarrow> Request \<Rightarrow> Server \<Rightarrow> Response \<times> Server" where
  "handleBootScript render clk r s =
     (if query_mac r = [] then (plainText ExitScript, s)
      else
        (case AutoRegister (datetime clk) s (query_mac r) (clientAddr r) of
           ((sys, isNew, Some e), s1) \<Rightarrow> (plainText ExitScript, s1)
         | ((sys, isNew, None), s1) \<Rightarrow>
            (let s2 = (if isNew \<and> sys \<noteq> None then fireSystemEvent s1 (the sys) ''discovered'' else s1)
             in if sys = None \<or> State (the sys) \<noteq> ''queued'' \<or> ImageID (the sys) = None
                   \<or> Hostname (the sys) = [] then (plainText ExitScript, s2)
                else
                  (case GetImage s2 (the (ImageID (the sys))) of
                     None \<Rightarrow> (plainText ExitScript, s2)
                   | Some img \<Rightarrow>
                       (case render clk s2 r (the sys) img of
                          None \<Rightarrow> (http_Error ''Internal Server Error'' 500, s2)
                        | Some script \<Rightarrow>
                            (let s3 = UpdateSystemState (datetime clk) s2 (ID (the sys)) ''provisioning'';
                                 s4 = fireSystemEvent s3 (the sys) ''provisioning''
                             in (plainText script, s4)))))))"

text \<open>The server after a sequence of boot requests, served one after the other.\<close>

fun serveBoot ::
    "(Clock \<Rightarrow> Server \<Rightarrow> Request \<Rightarrow> System \<Rightarrow> Image \<Rightarrow> string option)
      \<Rightarrow> (Clock \<times> Request) list \<Rightarrow> Server \<Rightarrow> Server" where
  "serveBoot render [] s = s"
| "serveBoot render ((clk, r) # rs) s = serveBoot render rs (snd (handleBootScript render clk r s))"

text \<open>The \<^verbatim>\<open>system.discovered\<close> events among those fired.\<close>

definition discoveredEvents :: "Server \<Rightarrow> Event list" where
  "discoveredEvents s = filter (\<lambda>e. Type e = ''system.discovered'') (fired s)"

text \<open>
  A row after the boot requests \<open>reqs\<close> of its machine have touched it, one after the
  other: each sets the observed address and the last-seen time.
\<close>

definition touched :: "System \<Rightarrow> (Clock \<times> Request) list \<Rightarrow> System" where
  "touched row reqs =
     foldl (\<lambda>x (clk, r). x\<lparr>IPAddr := clientAddr r, LastSeenAt := datetime clk, UpdatedAt := datetime clk\<rparr>)
           row reqs"

section \<open>SHA-256, HMAC and base64\<close>

text \<open>
  \<^verbatim>\<open>crypto/sha256\<close> (FIPS 180-4) on 32-bit words, held as natural numbers below
  \<open>2 ^ 32\<close> with the wrap-around written out.
\<close>

definition K256 :: "nat list" where
  "K256 =
    [1116352408, 1899447441, 3049323471, 3921009573, 961987163, 1508970993,
     2453635748, 2870763221, 3624381080, 310598401, 607225278, 1426881987,
     1925078388, 2162078206, 2614888103, 3248222580, 3835390401, 4022224774,
     264347078, 604807628, 770255983, 1249150122, 1555081692, 1996064986,
     2554220882, 2821834349, 2952996808, 3210313671, 3336571891, 3584528711,
     113926993, 338241895, 666307205, 773529912, 1294757372, 1396182291,
     1695183700, 1986661051, 2177026350, 2456956037, 2730485921, 2820302411,
     3259730800, 3345764771, 3516065817, 3600352804, 4094571909, 275423344,
     430227734, 506948616, 659060556, 883997877, 958139571, 1322822218,
     1537002063, 1747873779, 1955562222, 2024104815, 2227730452, 2361852424,
     2428436474, 2756734187, 3204031479, 3329325298]"

definition H256 :: "nat list" where
  "H256 =
    [1779033703, 3144134277, 1013904242, 2773480762, 1359893119, 2600822924,
     528734635, 1541459225]"

definition add32 :: "nat \<Rightarrow> nat \<Rightarrow> nat" where
  "add32 x y = (x + y) mod 4294967296"

definition not32 :: "nat \<Rightarrow> nat" where
  "not32 x = 4294967295 - x"

definition rotr :: "nat \<Rightarrow> nat \<Rightarrow> nat" where
  "rotr n x = x div 2 ^ n + (x mod 2 ^ n) * 2 ^ (32 - n)"

definition shr :: "nat \<Rightarrow> nat \<Rightarrow> nat" where
  "shr n x = x div 2 ^ n"

definition ssig0 :: "nat \<Rightarrow> nat" where
  "ssig0 x = rotr 7 x XOR rotr 18 x XOR shr 3 x"

definition ssig1 :: "nat \<Rightarrow> nat" where
  "ssig1 x = rotr 17 x XOR rotr 19 x XOR shr 10 x"

definition bsig0 :: "nat \<Rightarrow> nat" where
  "bsig0 x = rotr 2 x XOR rotr 13 x XOR rotr 22 x"

definition bsig1 :: "nat \<Rightarrow> nat" where
  "bsig1 x = rotr 6 x XOR rotr 11 x XOR rotr 25 x"

definition ch :: "nat \<Rightarrow> nat \<Rightarrow> nat \<Rightarrow> nat" where
  "ch x y z = (x AND y) XOR (not32 x AND z)"

definition maj :: "nat \<Rightarrow> nat \<Rightarrow> nat \<Rightarrow> nat" where
  "maj x y z = (x AND y) XOR (x AND z) XOR (y AND z)"

text \<open>The message schedule; \<open>win\<close> holds the last sixteen words, oldest first.\<close>

definition sched_word :: "nat list \<Rightarrow> nat" where
  "sched_word win = add32 (add32 (add32 (ssig1 (win ! 14)) (win ! 9)) (ssig0 (win ! 1))) (win ! 0)"

fun schedule :: "nat list \<Rightarrow> nat list \<Rightarrow> nat list" where
  "schedule [] win = []"
| "schedule (t # ts) win = sched_word win # schedule ts (tl win @ [sched_word win])"

definition round_out :: "nat list \<Rightarrow> nat \<Rightarrow> nat \<Rightarrow> nat list" where
  "round_out st t1 t2 = [add32 t1 t2, st ! 0, st ! 1, st ! 2, add32 (st ! 3) t1, st ! 4, st ! 5, st ! 6]"

definition round256 :: "nat list \<Rightarrow> nat \<times> nat \<Rightarrow> nat list" where
  "round256 st kw =
     round_out st
       (add32 (add32 (add32 (add32 (st ! 7) (bsig1 (st ! 4))) (ch (st ! 4) (st ! 5) (st ! 6))) (fst kw)) (snd kw))
       (add32 (bsig0 (st ! 0)) (maj (st ! 0) (st ! 1) (st ! 2)))"

definition compress :: "nat list \<Rightarrow> nat list \<Rightarrow> nat list" where
  "compress st blk = map2 add32 st (foldl round256 st (zip K256 (blk @ schedule [16..<64] blk)))"

text \<open>Padding, then blocks of sixteen big-endian words.\<close>

definition pad :: "nat list \<Rightarrow> nat list" where
  "pad m = m @ [128] @ replicate ((119 - length m mod 64) mod 64) 0
             @ map (\<lambda>i. (8 * length m) div 2 ^ (8 * (7 - i)) mod 256) [0..<8]"

function chunksOf :: "nat \<Rightarrow> 'a list \<Rightarrow> 'a list list" where
  "chunksOf k xs = (if k = 0 \<or> xs = [] then [] else take k xs # chunksOf k (drop k xs))"
  by pat_completeness auto
termination
  by (relation "measure (\<lambda>(k, xs). length xs)") auto

declare chunksOf.simps [simp del]

definition be32 :: "nat list \<Rightarrow> nat" where
  "be32 bs = foldl (\<lambda>a b. a * 256 + b) 0 bs"

definition wordBytes :: "nat \<Rightarrow> nat list" where
  "wordBytes w = [w div 16777216 mod 256, w div 65536 mod 256, w div 256 mod 256, w mod 256]"

definition sha256_bytes :: "nat list \<Rightarrow> nat list" where
  "sha256_bytes m =
     concat (map wordBytes (foldl compress H256 (map (\<lambda>b. map be32 (chunksOf 4 b)) (chunksOf 64 (pad m)))))"

definition sha256 :: "string \<Rightarrow> string" where
  "sha256 m = map char_of (sha256_bytes (map of_char m))"

text \<open>\<^verbatim>\<open>crypto/hmac\<close> with SHA-256 (RFC 2104, block size 64).\<close>

definition xorPad :: "nat \<Rightarrow> string \<Rightarrow> string" where
  "xorPad p k = map (\<lambda>c. char_of ((of_char c :: nat) XOR p)) k"

definition hmacKey :: "string \<Rightarrow> string" where
  "hmacKey key = (let k = (if length key > 64 then sha256 key else key)
                  in k @ replicate (64 - length k) (CHR 0x00))"

definition hmac_sha256 :: "string \<Rightarrow> string \<Rightarrow> string" where
  "hmac_sha256 key msg = sha256 (xorPad 0x5c (hmacKey key) @ sha256 (xorPad 0x36 (hmacKey key) @ msg))"

text \<open>\<^verbatim>\<open>hex.EncodeToString\<close>.\<close>

definition hexEncode :: "string \<Rightarrow> string" where
  "hexEncode bs = concat (map (\<lambda>c. [''0123456789abcdef'' ! ((of_char c :: nat) div 16),
                                     ''0123456789abcdef'' ! ((of_char c :: nat) mod 16)]) bs)"

text \<open>
  \<^verbatim>\<open>base64.RawURLEncoding\<close>: the URL alphabet without padding. The decoder skips
  carriage returns and line feeds and does not check the unused trailing bits.
\<close>

definition b64Table :: string where
  "b64Table = ''ABCDEFGHIJKLMNOPQRSTUVWXYZabcdefghijklmnopqrstuvwxyz0123456789-_''"



definition b64val :: "char \<Rightarrow> nat option" where
  "b64val c = map_of (zip b64Table [0..<64]) c"

text \<open>The bytes of a sequence of 6-bit groups; a single group left over is an error.\<close>

fun octets :: "nat list \<Rightarrow> nat list option" where
  "octets (w # x # y # z # r) =
     map_option (\<lambda>rest. [w * 4 + x div 16, (x mod 16) * 16 + y div 4, (y mod 4) * 64 + z] @ rest) (octets r)"
| "octets [w, x, y] = Some [w * 4 + x div 16, (x mod 16) * 16 + y div 4]"
| "octets [w, x] = Some [w * 4 + x div 16]"
| "octets [w] = None"
| "octets [] = Some []"

definition DecodeString :: "string \<Rightarrow> string option" where
  "DecodeString s =
     (let cs = filter (\<lambda>c. c \<noteq> CHR 0x0D \<and> c \<noteq> CHR 0x0A) s
      in if list_all (\<lambda>c. b64val c \<noteq> None) cs
         then map_option (map char_of) (octets (map (\<lambda>c. the (b64val c)) cs))
         else None)"

section \<open>Signed URLs\<close>






text \<open>\<^verbatim>\<open>strings.SplitN(s, ".", 2)\<close> when it yields two parts.\<close>

definition splitDot :: "string \<Rightarrow> (string \<times> string) option" where
  "splitDot s =
     (case dropWhile (\<lambda>c. c \<noteq> CHR ''.'') s of
        [] \<Rightarrow> None
      | d # rest \<Rightarrow> Some (takeWhile (\<lambda>c. c \<noteq> CHR ''.'') s, rest))"

text \<open>\<^verbatim>\<open>validateToken\<close>; \<^verbatim>\<open>hmac.Equal\<close> is equality of the two byte strings.\<close>

definition validateToken :: "string \<Rightarrow> int \<Rightarrow> Request \<Rightarrow> bool" where
  "validateToken key now r =
     (if key = [] then True
      else if query_tok r = [] then False
      else
        (case DecodeString (query_tok r) of
           None \<Rightarrow> False
         | Some decoded \<Rightarrow>
             (case splitDot decoded of
                None \<Rightarrow> False
              | Some (p0, p1) \<Rightarrow>
                  (case ParseInt p0 of
                     None \<Rightarrow> False
                   | Some expiry \<Rightarrow>
                       if now > expiry then False
                       else
                         (case DecodeString p1 of
                            None \<Rightarrow> False
                          | Some sigBytes \<Rightarrow>
                              sigBytes = hmac_sha256 key (FormatInt expiry @ ''|'' @ URL_Path r))))))"

section \<open>The provisioning callback\<close>

text \<open>\<^verbatim>\<open>json.NewEncoder(w).Encode(map[string]string{"status": "ok"})\<close>\<close>

definition jsonOk :: Response where
  "jsonOk = \<lparr>status = 200, contentType = ''application/json'',
             body = Text ([CHR ''{'', CHR 0x22] @ ''status'' @ [CHR 0x22, CHR '':'', CHR 0x22] @ ''ok''
                          @ [CHR 0x22, CHR ''}'', nl])\<rparr>"

text \<open>\<^verbatim>\<open>handleCallback\<close>.\<close>

definition handleCallback :: "Clock \<Rightarrow> Request \<Rightarrow> Server \<Rightarrow> Response \<times> Server" where
  "handleCallback clk r s =
     (if \<not> validateToken (signingKey s) (unix clk) r then (http_Error ''Forbidden'' 403, s)
      else if path_mac r = [] then (http_Error ''MAC address required'' 400, s)
      else
        (case TransitionSystemStateByMAC (datetime clk) s (path_mac r) ''provisioning'' ''ready'' of
           Inl e \<Rightarrow> (http_Error ''Internal Server Error'' 500, s)
         | Inr s1 \<Rightarrow>
             (case GetSystemByMAC s1 (path_mac r) of
                Inr (Some sys) \<Rightarrow> (jsonOk, fireSystemEvent s1 sys ''ready'')
              | _ \<Rightarrow> (jsonOk, s1))))"

text \<open>The responses to a sequence of callbacks served one after the other, and the server afterwards.\<close>

fun serveCallbacks :: "(Clock \<times> Request) list \<Rightarrow> Server \<Rightarrow> Response list \<times> Server" where
  "serveCallbacks [] s = ([], s)"
| "serveCallbacks ((clk, r) # rs) s =
     (let (resp, s1) = handleCallback clk r s;
          (resps, s2) = serveCallbacks rs s1
      in (resp # resps, s2))"

text \<open>The \<^verbatim>\<open>system.ready\<close> events among those fired.\<close>

definition readyEvents :: "Server \<Rightarrow> Event list" where
  "readyEvents s = filter (\<lambda>e. Type e = ''system.ready'') (fired s)"

section \<open>The proxy-DHCP responder\<close>

text \<open>
  A DHCPv4 packet as the handler sees it. The header addresses are held in wire form
  (four bytes); \<open>[0, 0, 0, 0]\<close> is the unset address. The options are those the handler
  reads or writes: 53 (message type), 60 (class identifier), 77 (user class), 93 (client
  architectures), 54 (server identifier), 67 (boot file name) and 43 (vendor specific).
\<close>

datatype MessageType =
  MessageTypeNone | MessageTypeDiscover | MessageTypeOffer | MessageTypeRequest
  | MessageTypeDecline | MessageTypeAck | MessageTypeNak | MessageTypeRelease | MessageTypeInform

record DHCPv4 =
  ClientHWAddr :: "nat list"
  YourIPAddr :: "nat list"
  ServerIPAddr :: "nat list"
  OptMessageType :: MessageType
  OptClassIdentifier :: "string option"
  OptUserClass :: "string option"
  OptClientArch :: "nat list"
  OptServerIdentifier :: "nat list option"
  OptBootFileName :: "string option"
  OptVendorSpecific :: "nat list option"

text \<open>\<^verbatim>\<open>proxydhcp.Server\<close>; the server address is in wire form as well.\<close>

record ProxyServer =
  ServerIP :: "nat list"
  HTTPAddr :: string
  Proxy_ServerURL :: string

text \<open>The architecture codes of option 93 that the handler names (IANA registry).\<close>

definition INTEL_X86PC :: nat where
  "INTEL_X86PC = 0"

definition EFI_X86_64 :: nat where
  "EFI_X86_64 = 7"

definition EFI_BC :: nat where
  "EFI_BC = 9"

definition EFI_ARM64 :: nat where
  "EFI_ARM64 = 11"

definition isPXEClient :: "DHCPv4 \<Rightarrow> bool" where
  "isPXEClient pkt =
     (case OptClassIdentifier pkt of
        None \<Rightarrow> False
      | Some s \<Rightarrow> length s \<ge> 9 \<and> take 9 s = ''PXEClient'')"

definition isHTTPBootClient :: "DHCPv4 \<Rightarrow> bool" where
  "isHTTPBootClient pkt =
     (case OptClassIdentifier pkt of
        None \<Rightarrow> False
      | Some s \<Rightarrow> length s \<ge> 10 \<and> take 10 s = ''HTTPClient'')"

definition isIPXEClient :: "DHCPv4 \<Rightarrow> bool" where
  "isIPXEClient pkt =
     (case OptUserClass pkt of
        None \<Rightarrow> False
      | Some uc \<Rightarrow> uc = ''iPXE'' \<or> uc = CHR 0x04 # ''iPXE'')"

definition clientArch :: "DHCPv4 \<Rightarrow> nat" where
  "clientArch pkt = (case OptClientArch pkt of [] \<Rightarrow> INTEL_X86PC | a # as \<Rightarrow> a)"

definition vendorOpts :: "nat list" where
  "vendorOpts = [6, 1, 8, 255]"

text \<open>
  The packet builders of the DHCP library, as it documents them: each modifier sets one
  field or option, \<^verbatim>\<open>WithServerIP\<close> the server address of the header (\<^verbatim>\<open>siaddr\<close>).
  \<^verbatim>\<open>NewReplyFromRequest\<close> starts from a packet with unset addresses and no options,
  copies the client's hardware address and applies the modifiers in order. Its failure
  (no random transaction id) is not modelled.
\<close>

definition WithMessageType :: "MessageType \<Rightarrow> DHCPv4 \<Rightarrow> DHCPv4" where
  "WithMessageType m d = d\<lparr>OptMessageType := m\<rparr>"

definition WithServerIP :: "nat list \<Rightarrow> DHCPv4 \<Rightarrow> DHCPv4" where
  "WithServerIP ip d = d\<lparr>ServerIPAddr := ip\<rparr>"

definition WithServerIdentifier :: "nat list \<Rightarrow> DHCPv4 \<Rightarrow> DHCPv4" where
  "WithServerIdentifier ip d = d\<lparr>OptServerIdentifier := Some ip\<rparr>"

definition WithBootFileName :: "string \<Rightarrow> DHCPv4 \<Rightarrow> DHCPv4" where
  "WithBootFileName f d = d\<lparr>OptBootFileName := Some f\<rparr>"

definition WithClassIdentifier :: "string \<Rightarrow> DHCPv4 \<Rightarrow> DHCPv4" where
  "WithClassIdentifier c d = d\<lparr>OptClassIdentifier := Some c\<rparr>"

definition WithVendorSpecific :: "nat list \<Rightarrow> DHCPv4 \<Rightarrow> DHCPv4" where
  "WithVendorSpecific v d = d\<lparr>OptVendorSpecific := Some v\<rparr>"

definition NewReplyFromRequest :: "DHCPv4 \<Rightarrow> (DHCPv4 \<Rightarrow> DHCPv4) list \<Rightarrow> DHCPv4" where
  "NewReplyFromRequest req mods =
     fold (\<lambda>m d. m d) mods
       \<lparr>ClientHWAddr = ClientHWAddr req, YourIPAddr = [0, 0, 0, 0], ServerIPAddr = [0, 0, 0, 0],
        OptMessageType = MessageTypeNone, OptClassIdentifier = None, OptUserClass = None,
        OptClientArch = [], OptServerIdentifier = None, OptBootFileName = None,
        OptVendorSpecific = None\<rparr>"

text \<open>The boot file the handler chooses.\<close>

definition bootFileFor :: "string \<Rightarrow> bool \<Rightarrow> bool \<Rightarrow> nat \<Rightarrow> string" where
  "bootFileFor serverURL isIPXE httpBoot arch =
     (if isIPXE then serverURL @ ''/boot.ipxe?mac=${net0/mac}''
      else if httpBoot then
        (if arch = EFI_ARM64 then serverURL @ ''/ipxe-arm64.efi'' else serverURL @ ''/ipxe.efi'')
      else
        (if arch = EFI_X86_64 \<or> arch = EFI_BC then ''ipxe.efi''
         else if arch = EFI_ARM64 then ''ipxe-arm64.efi''
         else ''undionly.kpxe''))"

text \<open>
  \<^verbatim>\<open>handler\<close>: the reply written to the client, or \<open>None\<close> when the packet is dropped.
  \<open>ipString\<close> is \<^verbatim>\<open>net.IP.String\<close>.
\<close>

definition handler :: "(nat list \<Rightarrow> string) \<Rightarrow> ProxyServer \<Rightarrow> DHCPv4 \<Rightarrow> DHCPv4 option" where
  "handler ipString srv pkt =
     (if OptMessageType pkt \<noteq> MessageTypeDiscover \<and> OptMessageType pkt \<noteq> MessageTypeRequest then None
      else
        (let httpBoot = isHTTPBootClient pkt
         in if \<not> isPXEClient pkt \<and> \<not> httpBoot then None
            else
              (let isIPXE = isIPXEClient pkt;
                   arch = clientArch pkt;
                   serverURL = (if Proxy_ServerURL srv = [] then ''http://'' @ ipString (ServerIP srv) @ HTTPAddr srv
                                else Proxy_ServerURL srv);
                   bootFile = bootFileFor serverURL isIPXE httpBoot arch;
                   opts = [WithMessageType MessageTypeOffer,
                           WithServerIP (ServerIP srv),
                           WithServerIdentifier (ServerIP srv),
                           WithBootFileName bootFile]
                          @ (if httpBoot then [WithClassIdentifier ''HTTPClient'']
                             else [WithClassIdentifier ''PXEClient'', WithVendorSpecific vendorOpts]);
                   resp = NewReplyFromRequest pkt opts;
                   resp1 = (if OptMessageType pkt = MessageTypeRequest
                            then resp\<lparr>OptMessageType := MessageTypeAck\<rparr> else resp);
                   resp2 = (if \<not> httpBoot then resp1\<lparr>ServerIPAddr := ServerIP srv\<rparr> else resp1)
               in Some (resp2\<lparr>YourIPAddr := [0, 0, 0, 0]\<rparr>))))"

text \<open>Dotted decimal, the string of a four-byte address.\<close>

definition dottedQuad :: "nat list \<Rightarrow> string" where
  "dottedQuad ip = concat (map (\<lambda>b. natDigits b @ ''.'') (butlast ip)) @ natDigits (last ip)"

section \<open>The SSRF guard\<close>

text \<open>
  A \<^verbatim>\<open>net.IP\<close> is a list of bytes, four or sixteen of them. The predicates below are
  those of Go's \<^verbatim>\<open>net\<close> package as it documents them: \<^verbatim>\<open>To4\<close> gives the four bytes of
  an IPv4 address, also from its sixteen-byte form \<^verbatim>\<open>::ffff:a.b.c.d\<close>.
\<close>

definition v4InV6Prefix :: "nat list" where
  "v4InV6Prefix = [0, 0, 0, 0, 0, 0, 0, 0, 0, 0, 255, 255]"

definition To4 :: "nat list \<Rightarrow> nat list option" where
  "To4 ip =
     (if length ip = 4 then Some ip
      else if length ip = 16 \<and> take 12 ip = v4InV6Prefix then Some (drop 12 ip)
      else None)"

definition IPv6loopback :: "nat list" where
  "IPv6loopback = [0, 0, 0, 0, 0, 0, 0, 0, 0, 0, 0, 0, 0, 0, 0, 1]"

definition IPv6unspecified :: "nat list" where
  "IPv6unspecified = [0, 0, 0, 0, 0, 0, 0, 0, 0, 0, 0, 0, 0, 0, 0, 0]"

definition IsLoopback :: "nat list \<Rightarrow> bool" where
  "IsLoopback ip = (case To4 ip of Some ip4 \<Rightarrow> ip4 ! 0 = 127 | None \<Rightarrow> ip = IPv6loopback)"

definition IsLinkLocalUnicast :: "nat list \<Rightarrow> bool" where
  "IsLinkLocalUnicast ip =
     (case To4 ip of
        Some ip4 \<Rightarrow> ip4 ! 0 = 169 \<and> ip4 ! 1 = 254
      | None \<Rightarrow> length ip = 16 \<and> ip ! 0 = 254 \<and> (ip ! 1) AND 192 = 128)"

definition IsLinkLocalMulticast :: "nat list \<Rightarrow> bool" where
  "IsLinkLocalMulticast ip =
     (case To4 ip of
        Some ip4 \<Rightarrow> ip4 ! 0 = 224 \<and> ip4 ! 1 = 0 \<and> ip4 ! 2 = 0
      | None \<Rightarrow> length ip = 16 \<and> ip ! 0 = 255 \<and> (ip ! 1) AND 15 = 2)"

text \<open>\<^verbatim>\<open>ip.Equal(net.IPv4zero) || ip.Equal(net.IPv6unspecified)\<close>\<close>

definition IsUnspecified :: "nat list \<Rightarrow> bool" where
  "IsUnspecified ip = (To4 ip = Some [0, 0, 0, 0] \<or> ip = IPv6unspecified)"

text \<open>\<^verbatim>\<open>net.CIDRMask(ones, 8 * n)\<close>: \<open>n\<close> bytes with the first \<open>ones\<close> bits set.\<close>

fun CIDRMask :: "nat \<Rightarrow> nat \<Rightarrow> nat list" where
  "CIDRMask ones 0 = []"
| "CIDRMask ones (Suc n) =
     (if ones \<ge> 8 then 255 # CIDRMask (ones - 8) n
      else (255 - 255 div 2 ^ ones) # CIDRMask 0 n)"

text \<open>
  \<^verbatim>\<open>(*IPNet).Contains\<close> for the network \<open>base/ones\<close>, as \<^verbatim>\<open>ParseCIDR\<close> gives it: an
  address of another family is not contained.
\<close>

definition Contains_ip :: "nat list \<times> nat \<Rightarrow> nat list \<Rightarrow> bool" where
  "Contains_ip net ip =
     (let x = (case To4 ip of Some ip4 \<Rightarrow> ip4 | None \<Rightarrow> ip);
          mask = CIDRMask (snd net) (length (fst net))
      in length x = length (fst net) \<and> map2 (AND) (fst net) mask = map2 (AND) x mask)"

definition privateRanges :: "(nat list \<times> nat) list" where
  "privateRanges =
     [([10, 0, 0, 0], 8), ([172, 16, 0, 0], 12), ([192, 168, 0, 0], 16), ([169, 254, 0, 0], 16),
      ([252, 0, 0, 0, 0, 0, 0, 0, 0, 0, 0, 0, 0, 0, 0, 0], 7),
      ([0, 0, 0, 0, 0, 0, 0, 0, 0, 0, 0, 0, 0, 0, 0, 1], 128)]"

definition isPrivateIP :: "nat list \<Rightarrow> bool" where
  "isPrivateIP ip =
     (if IsLoopback ip \<or> IsLinkLocalUnicast ip \<or> IsLinkLocalMulticast ip \<or> IsUnspecified ip then True
      else list_ex (\<lambda>r. Contains_ip r ip) privateRanges)"

text \<open>
  What a dial attempt ends in: an error before any socket is opened, or the call of the
  system dialer for a network and an address.
\<close>

datatype dialError = InvalidAddress | LookupFailed | BlockedPrivateIP "nat list" string

datatype dialCall = DialContext string string

text \<open>\<^verbatim>\<open>net.JoinHostPort\<close>: a host with a colon or a percent sign is put in brackets.\<close>

definition JoinHostPort :: "string \<Rightarrow> string \<Rightarrow> string" where
  "JoinHostPort host port =
     (if CHR '':'' \<in> set host \<or> CHR ''%'' \<in> set host then ''['' @ host @ '']:'' @ port
      else host @ '':'' @ port)"

text \<open>
  \<^verbatim>\<open>SafeDialContext\<close>. \<open>split\<close> is \<^verbatim>\<open>net.SplitHostPort\<close> and \<open>resolve\<close> the lookup of
  the default resolver, \<open>None\<close> when they fail.
\<close>

definition SafeDialContext ::
    "(string \<Rightarrow> (string \<times> string) option) \<Rightarrow> (string \<Rightarrow> nat list list option)
      \<Rightarrow> string \<Rightarrow> string \<Rightarrow> dialError + dialCall" where
  "SafeDialContext split resolve network addr =
     (case split addr of
        None \<Rightarrow> Inl InvalidAddress
      | Some (host, port) \<Rightarrow>
          (case resolve host of
             None \<Rightarrow> Inl LookupFailed
           | Some ips \<Rightarrow>
               (case find isPrivateIP ips of
                  Some ip \<Rightarrow> Inl (BlockedPrivateIP ip host)
                | None \<Rightarrow> Inr (DialContext network (JoinHostPort host port)))))"

text \<open>
  The addresses the specification lists as refused: loopback, link-local,
  \<open>10/8\<close>, \<open>172.16/12\<close>, \<open>192.168/16\<close>, \<open>169.254/16\<close>, \<open>fc00::/7\<close> and \<open>::1\<close>.
  Link-local is read as unicast and multicast.
\<close>

definition spec_private :: "nat list \<Rightarrow> bool" where
  "spec_private ip =
     (IsLoopback ip \<or> IsLinkLocalUnicast ip \<or> IsLinkLocalMulticast ip
      \<or> Contains_ip ([10, 0, 0, 0], 8) ip \<or> Contains_ip ([172, 16, 0, 0], 12) ip
      \<or> Contains_ip ([192, 168, 0, 0], 16) ip \<or> Contains_ip ([169, 254, 0, 0], 16) ip
      \<or> Contains_ip ([252, 0, 0, 0, 0, 0, 0, 0, 0, 0, 0, 0, 0, 0, 0, 0], 7) ip
      \<or> Contains_ip ([0, 0, 0, 0, 0, 0, 0, 0, 0, 0, 0, 0, 0, 0, 0, 1], 128) ip)"

section \<open>Example values\<close>

text \<open>A machine and a server used to evaluate the handlers on concrete inputs.\<close>

definition demoSystem :: System where
  "demoSystem = \<lparr>ID = 1, MAC = ''aa:bb:cc:dd:ee:ff'', Hostname = ''node01'', ImageID = Some 1,
     ProfileID = None, Vars = ''{}'', IPAddr = ''10.0.0.7'', LastSeenAt = ''t0'', State = ''ready'',
     StateChangedAt = ''t0'', CreatedAt = ''t0'', UpdatedAt = ''t0''\<rparr>"

definition demoServer :: "System list \<Rightarrow> Server" where
  "demoServer rows = \<lparr>systems = rows, systems_seq = 1, images = [], profiles = [], settings = [],
     signingKey = [], ServerURL = ''http://10.0.0.1'', fired = []\<rparr>"

definition demoRequest :: "string \<Rightarrow> string \<Rightarrow> Request" where
  "demoRequest mac ip = \<lparr>URL_Path = ''/boot.ipxe'', query_tok = [], query_mac = mac, path_mac = [],
     clientAddr = ip, Host = ''10.0.0.1''\<rparr>"

definition demoClock :: "string \<Rightarrow> int \<Rightarrow> Clock" where
  "demoClock d u = \<lparr>datetime = d, unix = u\<rparr>"

text \<open>A renderer for the examples: every script is the same line.\<close>

definition demoRender :: "Clock \<Rightarrow> Server \<Rightarrow> Request \<Rightarrow> System \<Rightarrow> Image \<Rightarrow> string option" where
  "demoRender clk s r sys img = Some ''#!ipxe''"

text \<open>A callback request for a machine, and a server without a signing key.\<close>

definition demoCallback :: "string \<Rightarrow> Request" where
  "demoCallback mac = \<lparr>URL_Path = ''/api/v1/systems/'' @ mac @ ''/callback'', query_tok = [], query_mac = [],
     path_mac = mac, clientAddr = ''10.0.0.7'', Host = ''10.0.0.1''\<rparr>"

text \<open>A proxy-DHCP server at 192.168.1.10 and a DISCOVER with the given options 60 and 93.\<close>

definition demoProxy :: ProxyServer where
  "demoProxy = \<lparr>ServerIP = [192, 168, 1, 10], HTTPAddr = '':8080'', Proxy_ServerURL = []\<rparr>"

definition demoDiscover :: "string \<Rightarrow> nat list \<Rightarrow> DHCPv4" where
  "demoDiscover vc archs =
     \<lparr>ClientHWAddr = [0, 17, 34, 51, 68, 85], YourIPAddr = [0, 0, 0, 0], ServerIPAddr = [0, 0, 0, 0],
      OptMessageType = MessageTypeDiscover, OptClassIdentifier = Some vc, OptUserClass = None,
      OptClientArch = archs, OptServerIdentifier = None, OptBootFileName = None,
      OptVendorSpecific = None\<rparr>"


section \<open>Properties of the operator state actions\<close>

lemma ParseInt_1: "ParseInt ''1'' = Some 1"
  by (simp add: ParseInt_def isDigit_def digitsVal_def digitVal_def)

lemma stateAction_Inr_iff:
  "stateAction action sys = Inr ns \<longleftrightarrow> spec_transition action sys = Some ns"
  by (auto simp: stateAction_def spec_transition_def)

lemma stateAction_Inl_status:
  "stateAction action sys = Inl r \<Longrightarrow> status r = 400"
  by (auto simp: stateAction_def http_Error_def split: if_splits)

lemma find_map_update:
  assumes "\<And>r. ID (f r) = ID r"
  shows "find (\<lambda>r. ID r = i) (map (\<lambda>r. if ID r = i then f r else r) rows)
         = map_option f (find (\<lambda>r. ID r = i) rows)"
  using assms by (induction rows) auto

lemma GetSystemByID_UpdateSystemState:
  "GetSystemByID (UpdateSystemState now s i st) i
     = map_option (\<lambda>r. r\<lparr>State := st, StateChangedAt := now, UpdatedAt := now\<rparr>) (GetSystemByID s i)"
  unfolding GetSystemByID_def UpdateSystemState_def
  using find_map_update[of "\<lambda>r. r\<lparr>State := st, StateChangedAt := now, UpdatedAt := now\<rparr>" i "systems s"]
  by simp

lemma GetSystemByID_fire [simp]: "GetSystemByID (fireSystemEvent s sys st) i = GetSystemByID s i"
  by (simp add: GetSystemByID_def fireSystemEvent_def)

text \<open>
  Claim C8, as amended. For a machine found by its id, an operator action succeeds
  exactly where the transition table gives a target state: the response is 200, the
  machine's state becomes that target and one event \<open>system.<target>\<close> is fired.
  Every other combination of action and state is rejected with status 400 and leaves
  the whole server state unchanged. The text of the rejection is fixed by the guard
  that fails: \<open>queue\<close> from a state other than \<open>discovered\<close>, \<open>ready\<close> and
  \<open>failed\<close> names the current state; \<open>queue\<close> without an image or a hostname
  says that both must be set; \<open>cancel\<close>, \<open>retry\<close>, \<open>mark_failed\<close> and
  \<open>reimage\<close> name the one state they require; any other action is unknown.
\<close>

theorem handleSystemStateAction_transitions:
  assumes "ParseInt idstr = Some i" and "GetSystemByID s i = Some sys"
  shows "(\<forall>ns. spec_transition action sys = Some ns \<longrightarrow>
            status (fst (handleSystemStateAction now idstr action s)) = 200
          \<and> GetSystemByID (snd (handleSystemStateAction now idstr action s)) i
               = Some (sys\<lparr>State := ns, StateChangedAt := now, UpdatedAt := now\<rparr>)
          \<and> map Type (fired (snd (handleSystemStateAction now idstr action s)))
               = map Type (fired s) @ [''system.'' @ ns])
       \<and> (spec_transition action sys = None \<longrightarrow>
            status (fst (handleSystemStateAction now idstr action s)) = 400
          \<and> snd (handleSystemStateAction now idstr action s) = s)
       \<and> (action = ''queue'' \<and> State sys \<notin> {''discovered'', ''ready'', ''failed''} \<longrightarrow>
            bodyText (fst (handleSystemStateAction now idstr action s))
              = ''Cannot queue from state '' @ State sys @ [nl])
       \<and> (action = ''queue'' \<and> State sys \<in> {''discovered'', ''ready'', ''failed''}
            \<and> (ImageID sys = None \<or> Hostname sys = []) \<longrightarrow>
            bodyText (fst (handleSystemStateAction now idstr action s))
              = ''Image and hostname must be set before queuing'' @ [nl])
       \<and> (action = ''cancel'' \<and> State sys \<noteq> ''queued'' \<longrightarrow>
            bodyText (fst (handleSystemStateAction now idstr action s))
              = ''Can only cancel from queued state'' @ [nl])
       \<and> (action = ''retry'' \<and> State sys \<noteq> ''failed'' \<longrightarrow>
            bodyText (fst (handleSystemStateAction now idstr action s))
              = ''Can only retry from failed state'' @ [nl])
       \<and> (action = ''mark_failed'' \<and> State sys \<noteq> ''provisioning'' \<longrightarrow>
            bodyText (fst (handleSystemStateAction now idstr action s))
              = ''Can only mark failed from provisioning state'' @ [nl])
       \<and> (action = ''reimage'' \<and> State sys \<noteq> ''ready'' \<longrightarrow>
            bodyText (fst (handleSystemStateAction now idstr action s))
              = ''Can only reimage from ready state'' @ [nl])
       \<and> (action \<notin> {''queue'', ''cancel'', ''retry'', ''mark_failed'', ''reimage''} \<longrightarrow>
            bodyText (fst (handleSystemStateAction now idstr action s))
              = ''Unknown action'' @ [nl])"
proof (intro conjI allI impI)
  fix ns assume t: "spec_transition action sys = Some ns"
  then have a: "stateAction action sys = Inr ns" by (simp add: stateAction_Inr_iff)
  let ?s1 = "UpdateSystemState now s i ns"
  have g: "GetSystemByID ?s1 i = Some (sys\<lparr>State := ns, StateChangedAt := now, UpdatedAt := now\<rparr>)"
    by (simp add: GetSystemByID_UpdateSystemState assms)
  show "status (fst (handleSystemStateAction now idstr action s)) = 200"
    by (simp add: handleSystemStateAction_def assms a Let_def renderSystemRow_def g)
  show "GetSystemByID (snd (handleSystemStateAction now idstr action s)) i
               = Some (sys\<lparr>State := ns, StateChangedAt := now, UpdatedAt := now\<rparr>)"
    by (simp add: handleSystemStateAction_def assms a Let_def g)
  show "map Type (fired (snd (handleSystemStateAction now idstr action s)))
               = map Type (fired s) @ [''system.'' @ ns]"
    by (simp add: handleSystemStateAction_def assms a Let_def fireSystemEvent_def UpdateSystemState_def)
next
  assume n: "spec_transition action sys = None"
  then obtain r where a: "stateAction action sys = Inl r"
    using stateAction_Inr_iff[of action sys] by (cases "stateAction action sys") auto
  show "status (fst (handleSystemStateAction now idstr action s)) = 400"
    by (simp add: handleSystemStateAction_def assms a stateAction_Inl_status[OF a])
  show "snd (handleSystemStateAction now idstr action s) = s"
    by (simp add: handleSystemStateAction_def assms a)
next
  assume "action = ''queue'' \<and> State sys \<notin> {''discovered'', ''ready'', ''failed''}"
  then show "bodyText (fst (handleSystemStateAction now idstr action s))
              = ''Cannot queue from state '' @ State sys @ [nl]"
    by (simp add: handleSystemStateAction_def assms stateAction_def bodyText_def http_Error_def)
next
  assume "action = ''queue'' \<and> State sys \<in> {''discovered'', ''ready'', ''failed''}
            \<and> (ImageID sys = None \<or> Hostname sys = [])"
  then have "stateAction action sys = Inl (http_Error ''Image and hostname must be set before queuing'' 400)"
    by (auto simp: stateAction_def)
  then show "bodyText (fst (handleSystemStateAction now idstr action s))
              = ''Image and hostname must be set before queuing'' @ [nl]"
    by (simp add: handleSystemStateAction_def assms bodyText_def http_Error_def)
next
  assume "action = ''cancel'' \<and> State sys \<noteq> ''queued''"
  then have "stateAction action sys = Inl (http_Error ''Can only cancel from queued state'' 400)"
    by (simp add: stateAction_def)
  then show "bodyText (fst (handleSystemStateAction now idstr action s))
              = ''Can only cancel from queued state'' @ [nl]"
    by (simp add: handleSystemStateAction_def assms bodyText_def http_Error_def)
next
  assume "action = ''retry'' \<and> State sys \<noteq> ''failed''"
  then have "stateAction action sys = Inl (http_Error ''Can only retry from failed state'' 400)"
    by (simp add: stateAction_def)
  then show "bodyText (fst (handleSystemStateAction now idstr action s))
              = ''Can only retry from failed state'' @ [nl]"
    by (simp add: handleSystemStateAction_def assms bodyText_def http_Error_def)
next
  assume "action = ''mark_failed'' \<and> State sys \<noteq> ''provisioning''"
  then have "stateAction action sys = Inl (http_Error ''Can only mark failed from provisioning state'' 400)"
    by (simp add: stateAction_def)
  then show "bodyText (fst (handleSystemStateAction now idstr action s))
              = ''Can only mark failed from provisioning state'' @ [nl]"
    by (simp add: handleSystemStateAction_def assms bodyText_def http_Error_def)
next
  assume "action = ''reimage'' \<and> State sys \<noteq> ''ready''"
  then have "stateAction action sys = Inl (http_Error ''Can only reimage from ready state'' 400)"
    by (simp add: stateAction_def)
  then show "bodyText (fst (handleSystemStateAction now idstr action s))
              = ''Can only reimage from ready state'' @ [nl]"
    by (simp add: handleSystemStateAction_def assms bodyText_def http_Error_def)
next
  assume "action \<notin> {''queue'', ''cancel'', ''retry'', ''mark_failed'', ''reimage''}"
  then have "stateAction action sys = Inl (http_Error ''Unknown action'' 400)"
    by (simp add: stateAction_def)
  then show "bodyText (fst (handleSystemStateAction now idstr action s))
              = ''Unknown action'' @ [nl]"
    by (simp add: handleSystemStateAction_def assms bodyText_def http_Error_def)
qed

text \<open>
  The theorem at a machine in state \<open>ready\<close> with an image and a hostname, at the
  same machine in state \<open>provisioning\<close>, and at the same machine without a hostname.
\<close>

theorem handleSystemStateAction_transitions_witness:
  "ParseInt ''1'' = Some 1 \<and> GetSystemByID (demoServer [demoSystem]) 1 = Some demoSystem
   \<and> spec_transition ''reimage'' demoSystem = Some ''queued''
   \<and> map_option State (GetSystemByID (snd (handleSystemStateAction ''t1'' ''1'' ''reimage'' (demoServer [demoSystem]))) 1)
        = Some ''queued''
   \<and> spec_transition ''retry'' demoSystem = None
   \<and> snd (handleSystemStateAction ''t1'' ''1'' ''retry'' (demoServer [demoSystem])) = demoServer [demoSystem]
   \<and> bodyText (fst (handleSystemStateAction ''t1'' ''1'' ''retry'' (demoServer [demoSystem])))
        = ''Can only retry from failed state'' @ [nl]
   \<and> bodyText (fst (handleSystemStateAction ''t1'' ''1'' ''cancel'' (demoServer [demoSystem])))
        = ''Can only cancel from queued state'' @ [nl]
   \<and> bodyText (fst (handleSystemStateAction ''t1'' ''1'' ''mark_failed'' (demoServer [demoSystem])))
        = ''Can only mark failed from provisioning state'' @ [nl]
   \<and> bodyText (fst (handleSystemStateAction ''t1'' ''1'' ''power_off'' (demoServer [demoSystem])))
        = ''Unknown action'' @ [nl]
   \<and> GetSystemByID (demoServer [demoSystem\<lparr>State := ''provisioning''\<rparr>]) 1 = Some (demoSystem\<lparr>State := ''provisioning''\<rparr>)
   \<and> bodyText (fst (handleSystemStateAction ''t1'' ''1'' ''queue'' (demoServer [demoSystem\<lparr>State := ''provisioning''\<rparr>])))
        = ''Cannot queue from state provisioning'' @ [nl]
   \<and> bodyText (fst (handleSystemStateAction ''t1'' ''1'' ''reimage'' (demoServer [demoSystem\<lparr>State := ''provisioning''\<rparr>])))
        = ''Can only reimage from ready state'' @ [nl]
   \<and> GetSystemByID (demoServer [demoSystem\<lparr>Hostname := []\<rparr>]) 1 = Some (demoSystem\<lparr>Hostname := []\<rparr>)
   \<and> bodyText (fst (handleSystemStateAction ''t1'' ''1'' ''queue'' (demoServer [demoSystem\<lparr>Hostname := []\<rparr>])))
        = ''Image and hostname must be set before queuing'' @ [nl]"
proof -
  have p: "ParseInt ''1'' = Some 1" by (rule ParseInt_1)
  have g: "GetSystemByID (demoServer [demoSystem]) 1 = Some demoSystem"
    by (simp add: GetSystemByID_def demoServer_def demoSystem_def)
  have g2: "GetSystemByID (demoServer [demoSystem\<lparr>State := ''provisioning''\<rparr>]) 1 = Some (demoSystem\<lparr>State := ''provisioning''\<rparr>)"
    by (simp add: GetSystemByID_def demoServer_def demoSystem_def)
  have g3: "GetSystemByID (demoServer [demoSystem\<lparr>Hostname := []\<rparr>]) 1 = Some (demoSystem\<lparr>Hostname := []\<rparr>)"
    by (simp add: GetSystemByID_def demoServer_def demoSystem_def)
  have t1: "spec_transition ''reimage'' demoSystem = Some ''queued''"
    by (simp add: spec_transition_def demoSystem_def)
  have t2: "spec_transition ''retry'' demoSystem = None"
    by (simp add: spec_transition_def demoSystem_def)
  have st: "State demoSystem = ''ready''" "ImageID demoSystem \<noteq> None"
    by (simp_all add: demoSystem_def)
  show ?thesis
    using handleSystemStateAction_transitions[OF p g, of "''reimage''" "''t1''"]
          handleSystemStateAction_transitions[OF p g, of "''retry''" "''t1''"]
          handleSystemStateAction_transitions[OF p g, of "''cancel''" "''t1''"]
          handleSystemStateAction_transitions[OF p g, of "''mark_failed''" "''t1''"]
          handleSystemStateAction_transitions[OF p g, of "''power_off''" "''t1''"]
          handleSystemStateAction_transitions[OF p g2, of "''queue''" "''t1''"]
          handleSystemStateAction_transitions[OF p g2, of "''reimage''" "''t1''"]
          handleSystemStateAction_transitions[OF p g3, of "''queue''" "''t1''"]
          p g g2 g3 t1 t2 st
    by simp
qed

text \<open>
  Claim C8 as stated fails: \<open>cancel\<close> on a machine in state \<open>ready\<close> is rejected
  with a message that does not name the current state.
\<close>

theorem cancel_message_counterexample:
  "GetSystemByID (demoServer [demoSystem]) 1 = Some demoSystem
   \<and> State demoSystem = ''ready''
   \<and> bodyText (fst (handleSystemStateAction ''t1'' ''1'' ''cancel'' (demoServer [demoSystem])))
        = ''Can only cancel from queued state'' @ [nl]
   \<and> \<not> Contains (bodyText (fst (handleSystemStateAction ''t1'' ''1'' ''cancel'' (demoServer [demoSystem]))))
                  (State demoSystem)"
  by (simp add: ParseInt_1 GetSystemByID_def demoServer_def demoSystem_def handleSystemStateAction_def
       stateAction_def http_Error_def bodyText_def nl_def)


section \<open>MAC normalisation: the canonical form is a fixed point\<close>

lemma hex_not_asciiSpace: "isLowerHex c \<Longrightarrow> \<not> asciiSpace c"
  by (auto simp: isLowerHex_def asciiSpace_def)

lemma hex_not_isSpace2: "isLowerHex c \<Longrightarrow> \<not> isSpace2 c b" "isLowerHex c \<Longrightarrow> \<not> isSpace2 b c"
  by (auto simp: isLowerHex_def isSpace2_def)

lemma hex_not_isSpace3: "isLowerHex c \<Longrightarrow> \<not> isSpace3 c a b" "isLowerHex c \<Longrightarrow> \<not> isSpace3 a b c"
  by (auto simp: isLowerHex_def isSpace3_def less_eq_char_def)

lemma hex_not_sep: "isLowerHex c \<Longrightarrow> \<not> isMacSep c"
  by (auto simp: isLowerHex_def isMacSep_def)

lemma hex_lowerChar:
  assumes "isLowerHex c"
  shows "lowerChar c = c"
proof -
  have "c \<notin> set ''ABCDEFGHIJKLMNOPQRSTUVWXYZ''"
    using assms by (auto simp: isLowerHex_def)
  then have "map_of (zip ''ABCDEFGHIJKLMNOPQRSTUVWXYZ'' ''abcdefghijklmnopqrstuvwxyz'') c = None"
    by (subst map_of_zip_is_None) simp_all
  then show ?thesis by (simp only: lowerChar_def option.case)
qed

lemma leadingSpace_hex:
  assumes "isLowerHex c"
  shows "leadingSpace (c # r) = 0"
proof (cases r)
  case Nil
  then show ?thesis by (simp add: hex_not_asciiSpace assms)
next
  case (Cons b r')
  then show ?thesis
    by (cases r') (simp_all add: hex_not_asciiSpace hex_not_isSpace2 hex_not_isSpace3 assms)
qed

lemma trailingSpace_hex:
  assumes "isLowerHex c"
  shows "trailingSpace (c # r) = 0"
proof (cases r)
  case Nil
  then show ?thesis by (simp add: hex_not_asciiSpace assms)
next
  case (Cons b r')
  then show ?thesis
    by (cases r') (simp_all add: hex_not_asciiSpace hex_not_isSpace2 hex_not_isSpace3 assms)
qed

lemma TrimSpace_hex_ends:
  assumes "isLowerHex c" "isLowerHex d"
  shows "TrimSpace (c # r @ [d]) = c # r @ [d]"
proof -
  have 1: "dropSpaces leadingSpace (length (c # r @ [d])) (c # r @ [d]) = c # r @ [d]"
    by (simp add: leadingSpace_hex assms)
  have 2: "dropSpaces trailingSpace (length (c # r @ [d])) (rev (c # r @ [d])) = rev (c # r @ [d])"
    by (simp add: trailingSpace_hex assms)
  show ?thesis unfolding TrimSpace_def Let_def 1 2 by simp
qed

lemma length12:
  "length (xs :: 'a list) = 12 \<Longrightarrow> \<exists>a b c d e f g h i j k l. xs = [a,b,c,d,e,f,g,h,i,j,k,l]"
  by (simp add: eval_nat_numeral length_Suc_conv) blast

lemma normalizeMAC_canonical:
  assumes "normalizeMAC mac = Some m"
  shows "\<exists>a b c d e f g h i j k l. list_all isLowerHex [a,b,c,d,e,f,g,h,i,j,k,l]
           \<and> m = [a,b,CHR '':'',c,d,CHR '':'',e,f,CHR '':'',g,h,CHR '':'',i,j,CHR '':'',k,l]"
proof -
  define hex where "hex = filter (\<lambda>c. \<not> isMacSep c) (ToLower (TrimSpace mac))"
  from assms have len: "length hex = 12" and ok: "list_all isLowerHex hex"
    and m: "m = take 2 hex @ '':'' @ take 2 (drop 2 hex) @ '':'' @ take 2 (drop 4 hex) @ '':''
                    @ take 2 (drop 6 hex) @ '':'' @ take 2 (drop 8 hex) @ '':'' @ take 2 (drop 10 hex)"
    by (auto simp: normalizeMAC_def Let_def hex_def split: if_splits)
  from length12[OF len] obtain a b c d e f g h i j k l where h: "hex = [a,b,c,d,e,f,g,h,i,j,k,l]" by blast
  have "list_all isLowerHex [a,b,c,d,e,f,g,h,i,j,k,l]" using ok h by simp
  moreover have "m = [a,b,CHR '':'',c,d,CHR '':'',e,f,CHR '':'',g,h,CHR '':'',i,j,CHR '':'',k,l]"
    unfolding m h by simp
  ultimately show ?thesis by blast
qed

lemma normalizeMAC_fixed:
  assumes ok: "list_all isLowerHex [a,b,c,d,e,f,g,h,i,j,k,l]"
    and m: "m = [a,b,CHR '':'',c,d,CHR '':'',e,f,CHR '':'',g,h,CHR '':'',i,j,CHR '':'',k,l]"
  shows "normalizeMAC m = Some m"
proof -
  have t: "TrimSpace m = m"
    using TrimSpace_hex_ends[of a l "[b,CHR '':'',c,d,CHR '':'',e,f,CHR '':'',g,h,CHR '':'',i,j,CHR '':'',k]"] ok
    unfolding m by simp
  have lc: "lowerChar CHR '':'' = CHR '':''" by (simp add: lowerChar_def)
  have sep: "isMacSep CHR '':''" by (simp add: isMacSep_def)
  have lo: "ToLower m = m"
    unfolding m ToLower_def using ok by (simp add: hex_lowerChar lc)
  have fi: "filter (\<lambda>c. \<not> isMacSep c) m = [a,b,c,d,e,f,g,h,i,j,k,l]"
    unfolding m using ok by (simp add: hex_not_sep sep)
  show ?thesis
    unfolding normalizeMAC_def t lo fi Let_def using ok by (simp add: m)
qed

lemma normalizeMAC_empty: "normalizeMAC [] = None"
  by (simp add: normalizeMAC_def TrimSpace_def ToLower_def)

section \<open>Auto-registration and the boot script handler\<close>

lemma normalizeMAC_idem:
  assumes "normalizeMAC mac = Some m"
  shows "normalizeMAC m = Some m"
proof -
  from normalizeMAC_canonical[OF assms] obtain a b c d e f g h i j k l where
    "list_all isLowerHex [a,b,c,d,e,f,g,h,i,j,k,l]"
    "m = [a,b,CHR '':'',c,d,CHR '':'',e,f,CHR '':'',g,h,CHR '':'',i,j,CHR '':'',k,l]" by blast
  then show ?thesis by (rule normalizeMAC_fixed)
qed

lemma find_append_None: "find P xs = None \<Longrightarrow> find P (xs @ ys) = find P ys"
  by (induction xs) (auto split: if_splits)

lemma find_map_if:
  assumes "\<And>r. P (f r) = P r"
  shows "find P (map (\<lambda>r. if P r then f r else r) xs) = map_option f (find P xs)"
  using assms by (induction xs) auto

lemma map_if_find_None: "find P xs = None \<Longrightarrow> map (\<lambda>r. if P r then f r else r) xs = xs"
  by (induction xs) (auto split: if_splits)

lemma AutoRegister_new:
  assumes "normalizeMAC mac = Some m" and "find (\<lambda>r. MAC r = m) (systems s) = None"
  shows "AutoRegister now s mac ip =
           ((Some (newSystemRow now (systems_seq s + 1) m ip), True, None),
            s\<lparr>systems := systems s @ [newSystemRow now (systems_seq s + 1) m ip],
              systems_seq := systems_seq s + 1\<rparr>)"
  using assms normalizeMAC_idem[OF assms(1)]
  by (simp add: AutoRegister_def insertOrIgnore_def GetSystemByMAC_def find_append_None newSystemRow_def)

lemma AutoRegister_existing:
  assumes "normalizeMAC mac = Some m" and "find (\<lambda>r. MAC r = m) (systems s) = Some sys"
  shows "AutoRegister now s mac ip =
           ((Some (sys\<lparr>IPAddr := ip, LastSeenAt := now, UpdatedAt := now\<rparr>), False, None),
            s\<lparr>systems := map (\<lambda>r. if MAC r = m then r\<lparr>IPAddr := ip, LastSeenAt := now, UpdatedAt := now\<rparr> else r)
                               (systems s),
              systems_seq := systems_seq s + 1\<rparr>)"
proof -
  have f: "find (\<lambda>r. MAC r = m) (map (\<lambda>r. if MAC r = m then r\<lparr>IPAddr := ip, LastSeenAt := now, UpdatedAt := now\<rparr> else r) (systems s))
        = Some (sys\<lparr>IPAddr := ip, LastSeenAt := now, UpdatedAt := now\<rparr>)"
    using find_map_if[of "\<lambda>r. MAC r = m" "\<lambda>r. r\<lparr>IPAddr := ip, LastSeenAt := now, UpdatedAt := now\<rparr>" "systems s"] assms(2)
    by simp
  show ?thesis
    using assms normalizeMAC_idem[OF assms(1)] f
    by (simp add: AutoRegister_def insertOrIgnore_def GetSystemByMAC_def TouchSystem_def)
qed

lemma AutoRegister_invalid:
  "normalizeMAC mac = None \<Longrightarrow> AutoRegister now s mac ip = ((None, False, Some InvalidMAC), s)"
  by (simp add: AutoRegister_def)

lemma handleBootScript_existing_exit:
  assumes "normalizeMAC (query_mac r) = Some m" and "find (\<lambda>x. MAC x = m) (systems s) = Some sys"
    and "State sys \<noteq> ''queued'' \<or> ImageID sys = None \<or> Hostname sys = []"
  shows "handleBootScript render clk r s =
           (plainText ExitScript,
            s\<lparr>systems := map (\<lambda>x. if MAC x = m
                                   then x\<lparr>IPAddr := clientAddr r, LastSeenAt := datetime clk, UpdatedAt := datetime clk\<rparr>
                                   else x) (systems s),
              systems_seq := systems_seq s + 1\<rparr>)"
proof -
  have ne: "query_mac r \<noteq> []" using assms(1) normalizeMAC_empty by auto
  show ?thesis
    using ne assms(3) by (auto simp add: handleBootScript_def AutoRegister_existing[OF assms(1,2)])
qed

lemma handleBootScript_invalid:
  assumes "query_mac r = [] \<or> normalizeMAC (query_mac r) = None"
  shows "handleBootScript render clk r s = (plainText ExitScript, s)"
  using assms by (auto simp: handleBootScript_def AutoRegister_invalid)

lemma find_map_pres:
  assumes "\<And>x. P (g x) = P x"
  shows "find P (map g xs) = map_option g (find P xs)"
  using assms by (induction xs) auto

lemma handleBootScript_new:
  assumes "normalizeMAC (query_mac r) = Some m" and "find (\<lambda>x. MAC x = m) (systems s) = None"
  shows "handleBootScript render clk r s =
           (plainText ExitScript,
            s\<lparr>systems := systems s @ [newSystemRow (datetime clk) (systems_seq s + 1) m (clientAddr r)],
              systems_seq := systems_seq s + 1,
              fired := fired s @ [\<lparr>Type = ''system.discovered'', data_id = systems_seq s + 1, data_mac = m,
                                    data_hostname = [], data_ip_addr = clientAddr r, data_state = ''discovered''\<rparr>]\<rparr>)"
proof -
  have ne: "query_mac r \<noteq> []" using assms(1) normalizeMAC_empty by auto
  show ?thesis
    using ne by (simp add: handleBootScript_def AutoRegister_new[OF assms] fireSystemEvent_def newSystemRow_def)
qed

lemma handleBootScript_existing_cases:
  assumes "normalizeMAC (query_mac r) = Some m" and "find (\<lambda>x. MAC x = m) (systems s) = Some sys"
  shows "snd (handleBootScript render clk r s)
           = s\<lparr>systems := map (\<lambda>x. if MAC x = m
                                   then x\<lparr>IPAddr := clientAddr r, LastSeenAt := datetime clk, UpdatedAt := datetime clk\<rparr>
                                   else x) (systems s),
               systems_seq := systems_seq s + 1\<rparr>
       \<or> snd (handleBootScript render clk r s)
           = s\<lparr>systems := map ((\<lambda>x. if ID x = ID sys
                                    then x\<lparr>State := ''provisioning'', StateChangedAt := datetime clk, UpdatedAt := datetime clk\<rparr>
                                    else x)
                                \<circ> (\<lambda>x. if MAC x = m
                                   then x\<lparr>IPAddr := clientAddr r, LastSeenAt := datetime clk, UpdatedAt := datetime clk\<rparr>
                                   else x)) (systems s),
               systems_seq := systems_seq s + 1,
               fired := fired s @ [\<lparr>Type = ''system.provisioning'', data_id = ID sys, data_mac = MAC sys,
                  data_hostname = Hostname sys, data_ip_addr = clientAddr r, data_state = ''provisioning''\<rparr>]\<rparr>"
proof -
  have ne: "query_mac r \<noteq> []" using assms(1) normalizeMAC_empty by auto
  let ?s1 = "s\<lparr>systems := map (\<lambda>x. if MAC x = m
                                   then x\<lparr>IPAddr := clientAddr r, LastSeenAt := datetime clk, UpdatedAt := datetime clk\<rparr>
                                   else x) (systems s),
               systems_seq := systems_seq s + 1\<rparr>"
  let ?sys = "sys\<lparr>IPAddr := clientAddr r, LastSeenAt := datetime clk, UpdatedAt := datetime clk\<rparr>"
  have ar: "AutoRegister (datetime clk) s (query_mac r) (clientAddr r) = ((Some ?sys, False, None), ?s1)"
    by (rule AutoRegister_existing[OF assms])
  show ?thesis
  proof (cases "State sys \<noteq> ''queued'' \<or> ImageID sys = None \<or> Hostname sys = []")
    case True
    then show ?thesis using handleBootScript_existing_exit[OF assms, of render clk] by simp
  next
    case False
    then obtain i where q: "State sys = ''queued''" "ImageID sys = Some i" "Hostname sys \<noteq> []" by auto
    show ?thesis
    proof (cases "GetImage ?s1 i")
      case None
      then show ?thesis using ne q by (simp add: handleBootScript_def ar)
    next
      case (Some img)
      show ?thesis
      proof (cases "render clk ?s1 r ?sys img")
        case None
        then show ?thesis using ne q Some by (simp add: handleBootScript_def ar)
      next
        case (Some script)
        then show ?thesis using ne q \<open>GetImage ?s1 i = Some img\<close>
          by (simp add: handleBootScript_def ar fireSystemEvent_def UpdateSystemState_def)
      qed
    qed
  qed
qed

lemma serveBoot_registered:
  assumes "\<forall>(clk, r) \<in> set reqs. normalizeMAC (query_mac r) = Some m"
    and "systems s = pre @ [row]" and "find (\<lambda>x. MAC x = m) pre = None"
    and "MAC row = m" and "State row \<noteq> ''queued''"
  shows "serveBoot render reqs s
           = s\<lparr>systems := pre @ [touched row reqs], systems_seq := systems_seq s + int (length reqs)\<rparr>"
  using assms
proof (induction reqs arbitrary: s row)
  case Nil
  then show ?case by (simp add: touched_def)
next
  case (Cons a reqs)
  obtain clk r where a: "a = (clk, r)" by (cases a)
  let ?row = "row\<lparr>IPAddr := clientAddr r, LastSeenAt := datetime clk, UpdatedAt := datetime clk\<rparr>"
  have n: "normalizeMAC (query_mac r) = Some m" using Cons.prems(1) a by simp
  have f: "find (\<lambda>x. MAC x = m) (systems s) = Some row"
    using Cons.prems by (simp add: find_append_None)
  let ?s1 = "s\<lparr>systems := pre @ [?row], systems_seq := systems_seq s + 1\<rparr>"
  have step: "handleBootScript render clk r s = (plainText ExitScript, ?s1)"
    using handleBootScript_existing_exit[OF n f, of render clk] Cons.prems
    by (simp add: map_if_find_None)
  have "serveBoot render reqs ?s1
          = ?s1\<lparr>systems := pre @ [touched ?row reqs], systems_seq := systems_seq ?s1 + int (length reqs)\<rparr>"
    using Cons.prems by (intro Cons.IH) auto
  then show ?case by (simp add: a step touched_def)
qed

lemma touched_fields:
  "MAC (touched row reqs) = MAC row" "State (touched row reqs) = State row" "ID (touched row reqs) = ID row"
  "Hostname (touched row reqs) = Hostname row" "ImageID (touched row reqs) = ImageID row"
  unfolding touched_def by (induction reqs arbitrary: row; simp add: case_prod_beta)+

lemma touched_last:
  "reqs \<noteq> [] \<Longrightarrow> IPAddr (touched row reqs) = clientAddr (snd (last reqs))
     \<and> LastSeenAt (touched row reqs) = datetime (fst (last reqs))"
  unfolding touched_def by (induction reqs arbitrary: row rule: rev_induct) (simp_all add: case_prod_beta)

lemmas mac_eval = normalizeMAC_def TrimSpace_def ToLower_def lowerChar_def isMacSep_def isLowerHex_def
  asciiSpace_def isSpace2_def isSpace3_def Let_def

text \<open>
  Claim C10. A request for \<^verbatim>\<open>/boot.ipxe\<close> whose \<^verbatim>\<open>mac\<close> parameter is absent or empty, or
  fails normalisation, is answered with status 200 and exactly the exit script, and the
  server state is unchanged: no row is created, no machine changes state and no event
  is fired.
\<close>

theorem boot_bad_mac_exit:
  assumes "query_mac r = [] \<or> normalizeMAC (query_mac r) = None"
  shows "handleBootScript render clk r s
           = (\<lparr>status = 200, contentType = ''text/plain'',
               body = Text (''#!ipxe'' @ [CHR 0x0A] @ ''exit'' @ [CHR 0x0A])\<rparr>, s)"
  using handleBootScript_invalid[OF assms, of render clk s]
  by (simp add: plainText_def ExitScript_def nl_def)

text \<open>
  The theorem at a string that is not a MAC address and at the empty parameter.
\<close>

theorem boot_bad_mac_exit_witness:
  "normalizeMAC ''not-a-mac'' = None
   \<and> handleBootScript demoRender (demoClock ''t1'' 1) (demoRequest ''not-a-mac'' ''10.0.0.7'') (demoServer [demoSystem])
       = (\<lparr>status = 200, contentType = ''text/plain'',
               body = Text (''#!ipxe'' @ [CHR 0x0A] @ ''exit'' @ [CHR 0x0A])\<rparr>, demoServer [demoSystem])
   \<and> handleBootScript demoRender (demoClock ''t1'' 1) (demoRequest [] ''10.0.0.7'') (demoServer [demoSystem])
       = (\<lparr>status = 200, contentType = ''text/plain'',
               body = Text (''#!ipxe'' @ [CHR 0x0A] @ ''exit'' @ [CHR 0x0A])\<rparr>, demoServer [demoSystem])"
proof -
  have n: "normalizeMAC ''not-a-mac'' = None" by (simp add: mac_eval)
  show ?thesis
    using n boot_bad_mac_exit[of "demoRequest ''not-a-mac'' ''10.0.0.7''" demoRender "demoClock ''t1'' 1" "demoServer [demoSystem]"]
      boot_bad_mac_exit[of "demoRequest [] ''10.0.0.7''" demoRender "demoClock ''t1'' 1" "demoServer [demoSystem]"]
    by (simp add: demoRequest_def)
qed

text \<open>
  Claim C7. When the machine of a boot request has no image assigned, or an empty
  hostname, or is in a state other than \<open>queued\<close>, and also when it has no row yet and
  is auto-registered by this request, the response is status 200 with exactly the exit
  script.
\<close>

theorem boot_unready_exit:
  assumes "normalizeMAC (query_mac r) = Some m"
    and "case find (\<lambda>x. MAC x = m) (systems s) of
           None \<Rightarrow> True
         | Some sys \<Rightarrow> ImageID sys = None \<or> Hostname sys = [] \<or> State sys \<noteq> ''queued''"
  shows "fst (handleBootScript render clk r s)
           = \<lparr>status = 200, contentType = ''text/plain'',
               body = Text (''#!ipxe'' @ [CHR 0x0A] @ ''exit'' @ [CHR 0x0A])\<rparr>"
proof (cases "find (\<lambda>x. MAC x = m) (systems s)")
  case None
  then show ?thesis
    by (simp add: handleBootScript_new[OF assms(1) None] plainText_def ExitScript_def nl_def)
next
  case (Some sys)
  then have "State sys \<noteq> ''queued'' \<or> ImageID sys = None \<or> Hostname sys = []" using assms(2) by auto
  then show ?thesis
    by (simp add: handleBootScript_existing_exit[OF assms(1) Some] plainText_def ExitScript_def nl_def)
qed

text \<open>
  The theorem at a machine in state \<open>ready\<close> and at an unknown machine.
\<close>

theorem boot_unready_exit_witness:
  "normalizeMAC ''AA-BB-CC-DD-EE-FF'' = Some ''aa:bb:cc:dd:ee:ff''
   \<and> find (\<lambda>x. MAC x = ''aa:bb:cc:dd:ee:ff'') (systems (demoServer [demoSystem])) = Some demoSystem
   \<and> State demoSystem \<noteq> ''queued''
   \<and> fst (handleBootScript demoRender (demoClock ''t1'' 1) (demoRequest ''AA-BB-CC-DD-EE-FF'' ''10.0.0.7'') (demoServer [demoSystem]))
       = \<lparr>status = 200, contentType = ''text/plain'',
               body = Text (''#!ipxe'' @ [CHR 0x0A] @ ''exit'' @ [CHR 0x0A])\<rparr>
   \<and> find (\<lambda>x. MAC x = ''aa:bb:cc:dd:ee:ff'') (systems (demoServer [])) = None
   \<and> fst (handleBootScript demoRender (demoClock ''t1'' 1) (demoRequest ''AA-BB-CC-DD-EE-FF'' ''10.0.0.7'') (demoServer []))
       = \<lparr>status = 200, contentType = ''text/plain'',
               body = Text (''#!ipxe'' @ [CHR 0x0A] @ ''exit'' @ [CHR 0x0A])\<rparr>"
proof -
  have n: "normalizeMAC (query_mac (demoRequest ''AA-BB-CC-DD-EE-FF'' ''10.0.0.7'')) = Some ''aa:bb:cc:dd:ee:ff''"
    by (simp add: mac_eval demoRequest_def)
  have f1: "find (\<lambda>x. MAC x = ''aa:bb:cc:dd:ee:ff'') (systems (demoServer [demoSystem])) = Some demoSystem"
    by (simp add: demoServer_def demoSystem_def)
  have f2: "find (\<lambda>x. MAC x = ''aa:bb:cc:dd:ee:ff'') (systems (demoServer [])) = None"
    by (simp add: demoServer_def)
  have st: "State demoSystem \<noteq> ''queued''" by (simp add: demoSystem_def)
  show ?thesis
    using n f1 f2 st
      boot_unready_exit[OF n, of "demoServer [demoSystem]" demoRender "demoClock ''t1'' 1"]
      boot_unready_exit[OF n, of "demoServer []" demoRender "demoClock ''t1'' 1"]
    by (simp add: demoRequest_def)
qed

text \<open>
  Claim C5. Boot requests for one MAC that has no row, served one after the other:
  exactly one row is appended, in state \<open>discovered\<close> with the normalised MAC, and
  exactly one event, \<open>system.discovered\<close>, is fired. \<^verbatim>\<open>AutoRegister\<close> reports the
  machine as new exactly when no row had this MAC, which is when the insert affected
  a row. A request for a MAC that has a row creates no row, fires no
  \<open>system.discovered\<close> event and sets the observed address and the last-seen time of
  the row.
\<close>

theorem auto_register_once:
  assumes "\<forall>(clk, r) \<in> set reqs. normalizeMAC (query_mac r) = Some m"
    and "reqs \<noteq> []"
    and "find (\<lambda>x. MAC x = m) (systems s) = None"
  shows "systems (serveBoot render reqs s)
           = systems s @ [touched (newSystemRow (datetime (fst (hd reqs))) (systems_seq s + 1) m
                                     (clientAddr (snd (hd reqs)))) (tl reqs)]
       \<and> MAC (last (systems (serveBoot render reqs s))) = m
       \<and> State (last (systems (serveBoot render reqs s))) = ''discovered''
       \<and> fired (serveBoot render reqs s)
           = fired s @ [\<lparr>Type = ''system.discovered'', data_id = systems_seq s + 1, data_mac = m,
                          data_hostname = [], data_ip_addr = clientAddr (snd (hd reqs)),
                          data_state = ''discovered''\<rparr>]
       \<and> (\<forall>now s' mac ip. normalizeMAC mac = Some m \<longrightarrow>
             fst (snd (fst (AutoRegister now s' mac ip))) = (find (\<lambda>x. MAC x = m) (systems s') = None)
           \<and> fst (snd (fst (AutoRegister now s' mac ip))) = fst (insertOrIgnore now s' m ip))
       \<and> (\<forall>clk r s' sys. normalizeMAC (query_mac r) = Some m \<and> find (\<lambda>x. MAC x = m) (systems s') = Some sys \<longrightarrow>
             map MAC (systems (snd (handleBootScript render clk r s'))) = map MAC (systems s')
           \<and> discoveredEvents (snd (handleBootScript render clk r s')) = discoveredEvents s'
           \<and> map_option (\<lambda>x. (IPAddr x, LastSeenAt x))
                 (find (\<lambda>x. MAC x = m) (systems (snd (handleBootScript render clk r s'))))
               = Some (clientAddr r, datetime clk))"
proof (intro conjI allI impI)
  obtain clk r rs where reqs: "reqs = (clk, r) # rs" using assms(2) by (cases reqs) auto
  let ?row = "newSystemRow (datetime clk) (systems_seq s + 1) m (clientAddr r)"
  let ?ev = "\<lparr>Type = ''system.discovered'', data_id = systems_seq s + 1, data_mac = m,
                          data_hostname = [], data_ip_addr = clientAddr r, data_state = ''discovered''\<rparr>"
  let ?s1 = "s\<lparr>systems := systems s @ [?row], systems_seq := systems_seq s + 1, fired := fired s @ [?ev]\<rparr>"
  have n: "normalizeMAC (query_mac r) = Some m" using assms(1) reqs by simp
  have step: "handleBootScript render clk r s = (plainText ExitScript, ?s1)"
    by (rule handleBootScript_new[OF n assms(3)])
  have rest: "serveBoot render rs ?s1
                = ?s1\<lparr>systems := systems s @ [touched ?row rs], systems_seq := systems_seq ?s1 + int (length rs)\<rparr>"
    by (rule serveBoot_registered[where m = m]) (use assms reqs in \<open>auto simp: newSystemRow_def\<close>)
  have fin: "serveBoot render reqs s
               = ?s1\<lparr>systems := systems s @ [touched ?row rs], systems_seq := systems_seq ?s1 + int (length rs)\<rparr>"
    by (simp add: reqs step rest)
  show "systems (serveBoot render reqs s)
           = systems s @ [touched (newSystemRow (datetime (fst (hd reqs))) (systems_seq s + 1) m
                                     (clientAddr (snd (hd reqs)))) (tl reqs)]"
    by (simp add: fin) (simp add: reqs)
  show "MAC (last (systems (serveBoot render reqs s))) = m"
    by (simp add: fin touched_fields newSystemRow_def)
  show "State (last (systems (serveBoot render reqs s))) = ''discovered''"
    by (simp add: fin touched_fields newSystemRow_def)
  show "fired (serveBoot render reqs s)
           = fired s @ [\<lparr>Type = ''system.discovered'', data_id = systems_seq s + 1, data_mac = m,
                          data_hostname = [], data_ip_addr = clientAddr (snd (hd reqs)),
                          data_state = ''discovered''\<rparr>]"
    by (simp add: fin) (simp add: reqs)
next
  fix now s' mac ip assume n: "normalizeMAC mac = Some m"
  show "fst (snd (fst (AutoRegister now s' mac ip))) = (find (\<lambda>x. MAC x = m) (systems s') = None)"
  proof (cases "find (\<lambda>x. MAC x = m) (systems s')")
    case None
    then show ?thesis by (simp add: AutoRegister_new[OF n None])
  next
    case (Some sys)
    then show ?thesis by (simp add: AutoRegister_existing[OF n Some])
  qed
  show "fst (snd (fst (AutoRegister now s' mac ip))) = fst (insertOrIgnore now s' m ip)"
  proof (cases "find (\<lambda>x. MAC x = m) (systems s')")
    case None
    then show ?thesis by (simp add: AutoRegister_new[OF n None] insertOrIgnore_def)
  next
    case (Some sys)
    then show ?thesis by (simp add: AutoRegister_existing[OF n Some] insertOrIgnore_def)
  qed
next
  fix clk :: Clock and r :: Request and s' :: Server and sys :: System
  assume a: "normalizeMAC (query_mac r) = Some m \<and> find (\<lambda>x. MAC x = m) (systems s') = Some sys"
  then have n: "normalizeMAC (query_mac r) = Some m" and f: "find (\<lambda>x. MAC x = m) (systems s') = Some sys"
    by auto
  note c = handleBootScript_existing_cases[OF n f, of render clk]
  have msys: "MAC sys = m" using f by (auto dest: find_Some_iff[THEN iffD1])
  show "map MAC (systems (snd (handleBootScript render clk r s'))) = map MAC (systems s')"
    using c by auto
  show "discoveredEvents (snd (handleBootScript render clk r s')) = discoveredEvents s'"
    using c by (auto simp: discoveredEvents_def)
  show "map_option (\<lambda>x. (IPAddr x, LastSeenAt x))
                 (find (\<lambda>x. MAC x = m) (systems (snd (handleBootScript render clk r s'))))
               = Some (clientAddr r, datetime clk)"
    using c by (auto simp: find_map_pres f msys)
qed

text \<open>
  The theorem at two requests that spell the same MAC differently, on an empty table.
\<close>

theorem auto_register_once_witness:
  "(let reqs = [(demoClock ''t1'' 1, demoRequest ''aa-bb-cc-dd-ee-ff'' ''10.0.0.7''),
                (demoClock ''t2'' 2, demoRequest ''AA:BB:CC:DD:EE:FF'' ''10.0.0.8'')];
        s = serveBoot demoRender reqs (demoServer [])
    in (\<forall>(clk, r) \<in> set reqs. normalizeMAC (query_mac r) = Some ''aa:bb:cc:dd:ee:ff'')
       \<and> find (\<lambda>x. MAC x = ''aa:bb:cc:dd:ee:ff'') (systems (demoServer [])) = None
       \<and> length (systems s) = 1
       \<and> MAC (last (systems s)) = ''aa:bb:cc:dd:ee:ff''
       \<and> State (last (systems s)) = ''discovered''
       \<and> IPAddr (last (systems s)) = ''10.0.0.8''
       \<and> map Type (fired s) = [''system.discovered''])"
proof -
  let ?reqs = "[(demoClock ''t1'' 1, demoRequest ''aa-bb-cc-dd-ee-ff'' ''10.0.0.7''),
                (demoClock ''t2'' 2, demoRequest ''AA:BB:CC:DD:EE:FF'' ''10.0.0.8'')]"
  have n1: "normalizeMAC ''aa-bb-cc-dd-ee-ff'' = Some ''aa:bb:cc:dd:ee:ff''" by (simp add: mac_eval)
  have n2: "normalizeMAC ''AA:BB:CC:DD:EE:FF'' = Some ''aa:bb:cc:dd:ee:ff''" by (simp add: mac_eval)
  have v: "\<forall>(clk, r) \<in> set ?reqs. normalizeMAC (query_mac r) = Some ''aa:bb:cc:dd:ee:ff''"
    by (simp add: demoRequest_def n1 n2)
  have ne: "?reqs \<noteq> []" by simp
  have f: "find (\<lambda>x. MAC x = ''aa:bb:cc:dd:ee:ff'') (systems (demoServer [])) = None"
    by (simp add: demoServer_def)
  show ?thesis
    using auto_register_once[OF v ne f, of demoRender] v f
    by (simp add: Let_def touched_def demoServer_def demoRequest_def demoClock_def newSystemRow_def)
qed

section \<open>Decimal numbers and base64 round trips\<close>






























section \<open>Signed URLs verify until they expire\<close>



section \<open>The provisioning callback\<close>

lemma handleCallback_ok:
  assumes "validateToken (signingKey s) (unix clk) r"
    and "normalizeMAC (path_mac r) = Some m"
    and "find (\<lambda>x. MAC x = m) (systems s) = Some sys"
    and "State sys = ''provisioning'' \<or> State sys = ''ready''"
  shows "fst (handleCallback clk r s) = jsonOk"
    and "\<exists>sys'. find (\<lambda>x. MAC x = m) (systems (snd (handleCallback clk r s))) = Some sys'
               \<and> State sys' = ''ready''"
    and "map Type (fired (snd (handleCallback clk r s))) = map Type (fired s) @ [''system.ready'']"
    and "signingKey (snd (handleCallback clk r s)) = signingKey s"
proof -
  have ne: "path_mac r \<noteq> []" using assms(2) normalizeMAC_empty by auto
  let ?P = "\<lambda>x. MAC x = m \<and> State x = ''provisioning''"
  let ?upd = "\<lambda>x. if ?P x then x\<lparr>State := ''ready'', StateChangedAt := datetime clk, UpdatedAt := datetime clk\<rparr> else x"
  let ?s1 = "s\<lparr>systems := map ?upd (systems s)\<rparr>"
  have f1: "find (\<lambda>x. MAC x = m) (map ?upd (systems s)) = Some (?upd sys)"
    using find_map_pres[of "\<lambda>x. MAC x = m" ?upd "systems s"] assms(3) by simp
  have st1: "State (?upd sys) = ''ready''"
    using assms(3,4) by (auto dest: find_Some_iff[THEN iffD1])
  consider (a) "filter ?P (systems s) = []" | (b) "filter ?P (systems s) \<noteq> []" by blast
  then have res: "(handleCallback clk r s = (jsonOk, fireSystemEvent s sys ''ready'') \<and> State sys = ''ready'')
         \<or> handleCallback clk r s = (jsonOk, fireSystemEvent ?s1 (?upd sys) ''ready'')"
  proof cases
    case a
    have "\<not> ?P sys"
    proof
      assume "?P sys"
      moreover have "sys \<in> set (systems s)" using assms(3) by (auto simp: find_Some_iff)
      ultimately have "sys \<in> set (filter ?P (systems s))" by simp
      then show False using a by simp
    qed
    moreover have "MAC sys = m" using assms(3) by (auto dest: find_Some_iff[THEN iffD1])
    ultimately have r: "State sys = ''ready''" using assms(4) by auto
    show ?thesis
      using assms(1) ne a r
      by (simp add: handleCallback_def TransitionSystemStateByMAC_def assms(2,3) GetSystemByMAC_def)
  next
    case b
    show ?thesis
      using assms(1) ne b
      by (simp add: handleCallback_def TransitionSystemStateByMAC_def assms(2) GetSystemByMAC_def f1)
  qed
  show "fst (handleCallback clk r s) = jsonOk" using res by auto
  show "\<exists>sys'. find (\<lambda>x. MAC x = m) (systems (snd (handleCallback clk r s))) = Some sys'
               \<and> State sys' = ''ready''"
    using res assms(3) f1 st1 by (auto simp: fireSystemEvent_def)
  show "map Type (fired (snd (handleCallback clk r s))) = map Type (fired s) @ [''system.ready'']"
    using res by (auto simp: fireSystemEvent_def)
  show "signingKey (snd (handleCallback clk r s)) = signingKey s"
    using res by (auto simp: fireSystemEvent_def)
qed

lemma handleCallback_other_state:
  assumes "normalizeMAC (path_mac r) = Some m"
    and "find (\<lambda>x. MAC x = m) (systems s) = Some sys"
    and "State sys \<noteq> ''provisioning''" and "State sys \<noteq> ''ready''"
    and "\<forall>x \<in> set (systems s). MAC x = m \<longrightarrow> x = sys"
  shows "status (fst (handleCallback clk r s)) \<noteq> 200" and "snd (handleCallback clk r s) = s"
proof -
  have a: "filter (\<lambda>x. MAC x = m \<and> State x = ''provisioning'') (systems s) = []"
    using assms(3,5) by (auto simp: filter_empty_conv)
  show "status (fst (handleCallback clk r s)) \<noteq> 200"
    using assms(3,4)
    by (simp add: handleCallback_def TransitionSystemStateByMAC_def assms(1,2) a http_Error_def)
  show "snd (handleCallback clk r s) = s"
    using assms(3,4)
    by (simp add: handleCallback_def TransitionSystemStateByMAC_def assms(1,2) a)
qed

lemma serveCallbacks_ready:
  assumes "\<forall>(clk, r) \<in> set reqs. normalizeMAC (path_mac r) = Some m \<and> validateToken (signingKey s) (unix clk) r"
    and "find (\<lambda>x. MAC x = m) (systems s) = Some sys"
    and "State sys = ''provisioning'' \<or> State sys = ''ready''"
  shows "fst (serveCallbacks reqs s) = replicate (length reqs) jsonOk
       \<and> map Type (fired (snd (serveCallbacks reqs s))) = map Type (fired s) @ replicate (length reqs) ''system.ready''
       \<and> (reqs \<noteq> [] \<longrightarrow> (\<exists>sys'. find (\<lambda>x. MAC x = m) (systems (snd (serveCallbacks reqs s))) = Some sys'
                                 \<and> State sys' = ''ready''))"
  using assms
proof (induction reqs arbitrary: s sys)
  case Nil
  then show ?case by simp
next
  case (Cons a reqs)
  obtain clk r where a: "a = (clk, r)" by (cases a)
  have n: "normalizeMAC (path_mac r) = Some m" and v: "validateToken (signingKey s) (unix clk) r"
    using Cons.prems(1) a by auto
  note ok = handleCallback_ok[OF v n Cons.prems(2,3)]
  obtain resp s1 where h: "handleCallback clk r s = (resp, s1)" by (cases "handleCallback clk r s")
  from ok h have resp: "resp = jsonOk" and key: "signingKey s1 = signingKey s"
    and ev: "map Type (fired s1) = map Type (fired s) @ [''system.ready'']" by simp_all
  from ok(2) h obtain sys1 where f1: "find (\<lambda>x. MAC x = m) (systems s1) = Some sys1" and st1: "State sys1 = ''ready''"
    by auto
  have pre: "\<forall>(clk, r) \<in> set reqs. normalizeMAC (path_mac r) = Some m \<and> validateToken (signingKey s1) (unix clk) r"
    using Cons.prems(1) key by auto
  have ih: "fst (serveCallbacks reqs s1) = replicate (length reqs) jsonOk
       \<and> map Type (fired (snd (serveCallbacks reqs s1))) = map Type (fired s1) @ replicate (length reqs) ''system.ready''
       \<and> (reqs \<noteq> [] \<longrightarrow> (\<exists>sys'. find (\<lambda>x. MAC x = m) (systems (snd (serveCallbacks reqs s1))) = Some sys'
                                 \<and> State sys' = ''ready''))"
    by (rule Cons.IH[OF pre f1]) (simp add: st1)
  show ?case
  proof (cases "reqs = []")
    case True
    then show ?thesis using resp ev f1 st1 by (simp add: a h)
  next
    case False
    then show ?thesis using ih resp ev
      by (simp add: a h case_prod_beta replicate_append_same)
  qed
qed

text \<open>
  Claim C1 fails on the code: a machine in state \<open>provisioning\<close> whose callback is
  posted twice gets two successful responses and ends in state \<open>ready\<close>, but
  \<^verbatim>\<open>handleCallback\<close> fires \<open>system.ready\<close> after every successful call, so two events
  are emitted where the claim says exactly one.
\<close>

theorem callback_twice_fires_twice:
  "(let s0 = demoServer [demoSystem\<lparr>State := ''provisioning''\<rparr>];
        reqs = [(demoClock ''t1'' 1, demoCallback ''aa:bb:cc:dd:ee:ff''),
                (demoClock ''t2'' 2, demoCallback ''aa:bb:cc:dd:ee:ff'')]
    in fst (serveCallbacks reqs s0) = [jsonOk, jsonOk]
     \<and> map State (systems (snd (serveCallbacks reqs s0))) = [''ready'']
     \<and> map Type (fired (snd (serveCallbacks reqs s0))) = [''system.ready'', ''system.ready''])"
proof -
  have n: "normalizeMAC ''aa:bb:cc:dd:ee:ff'' = Some ''aa:bb:cc:dd:ee:ff''" by (simp add: mac_eval)
  have v: "\<And>t r. validateToken [] t r" by (simp add: validateToken_def)
  show ?thesis
    by (simp add: Let_def handleCallback_def TransitionSystemStateByMAC_def GetSystemByMAC_def n v
        demoServer_def demoSystem_def demoCallback_def demoClock_def fireSystemEvent_def)
qed

section \<open>The proxy-DHCP reply\<close>

lemma handler_eligible:
  "handler ipString srv pkt \<noteq> None
     \<longleftrightarrow> (OptMessageType pkt = MessageTypeDiscover \<or> OptMessageType pkt = MessageTypeRequest)
         \<and> (isPXEClient pkt \<or> isHTTPBootClient pkt)"
  by (auto simp: handler_def Let_def)

lemma handler_siaddr:
  assumes "handler ipString srv pkt = Some resp"
  shows "ServerIPAddr resp = ServerIP srv" and "YourIPAddr resp = [0, 0, 0, 0]"
    and "OptServerIdentifier resp = Some (ServerIP srv)"
  using assms
  by (auto simp: handler_def Let_def NewReplyFromRequest_def WithMessageType_def WithServerIP_def
      WithServerIdentifier_def WithBootFileName_def WithClassIdentifier_def WithVendorSpecific_def
      split: if_splits)

text \<open>
  Claim C2 fails on the code for HTTP-Boot: the reply to a DISCOVER with option 60
  \<open>HTTPClient\<close> carries the server's own address in \<^verbatim>\<open>siaddr\<close>, not 0.0.0.0, because
  \<^verbatim>\<open>WithServerIP\<close> is among the modifiers of every reply. For a PXE client the reply
  carries the server's address, as claimed.
\<close>

theorem http_boot_reply_siaddr:
  "map_option ServerIPAddr (handler dottedQuad demoProxy (demoDiscover ''HTTPClient'' [7])) = Some [192, 168, 1, 10]
   \<and> map_option OptBootFileName (handler dottedQuad demoProxy (demoDiscover ''HTTPClient'' [7]))
        = Some (Some ''http://192.168.1.10:8080/ipxe.efi'')
   \<and> map_option OptClassIdentifier (handler dottedQuad demoProxy (demoDiscover ''HTTPClient'' [7]))
        = Some (Some ''HTTPClient'')
   \<and> map_option ServerIPAddr (handler dottedQuad demoProxy (demoDiscover ''PXEClient'' [])) = Some [192, 168, 1, 10]
   \<and> map_option OptBootFileName (handler dottedQuad demoProxy (demoDiscover ''PXEClient'' []))
        = Some (Some ''undionly.kpxe'')"
proof -
  have "dottedQuad [192, 168, 1, 10] = ''192.168.1.10''"
    by code_simp
  then have d: "dottedQuad [192, 168, Suc 0, 10] = ''192.168.1.10''"
    by simp
  show ?thesis
    by (simp add: handler_def Let_def NewReplyFromRequest_def WithMessageType_def WithServerIP_def
      WithServerIdentifier_def WithBootFileName_def WithClassIdentifier_def WithVendorSpecific_def
      demoProxy_def demoDiscover_def isHTTPBootClient_def isPXEClient_def isIPXEClient_def
      clientArch_def bootFileFor_def d EFI_ARM64_def EFI_BC_def EFI_X86_64_def INTEL_X86PC_def)
qed

end
